theory Spec2Isabelle
  imports Complex_Main
begin

section \<open>Points, directions and bounding boxes\<close>

text \<open>
  The script computes with three-component coordinate arrays.  Python floats are
  idealised as real numbers throughout: rounding is not modelled.
\<close>

type_synonym point = "real \<times> real \<times> real"

definition ORIGIN :: point where "ORIGIN = (0, 0, 0)"
definition UP :: point where "UP = (0, 1, 0)"
definition DOWN :: point where "DOWN = (0, -1, 0)"
definition RIGHT :: point where "RIGHT = (1, 0, 0)"
definition LEFT :: point where "LEFT = (-1, 0, 0)"

fun vadd :: "point \<Rightarrow> point \<Rightarrow> point" where
  "vadd (a, b, c) (d, e, f) = (a + d, b + e, c + f)"

fun vsub :: "point \<Rightarrow> point \<Rightarrow> point" where
  "vsub (a, b, c) (d, e, f) = (a - d, b - e, c - f)"

fun smul :: "real \<Rightarrow> point \<Rightarrow> point" where
  "smul k (a, b, c) = (k * a, k * b, k * c)"

fun vmin :: "point \<Rightarrow> point \<Rightarrow> point" where
  "vmin (a, b, c) (d, e, f) = (min a d, min b e, min c f)"

fun vmax :: "point \<Rightarrow> point \<Rightarrow> point" where
  "vmax (a, b, c) (d, e, f) = (max a d, max b e, max c f)"

text \<open>
  What is known of the space a drawable object's own points occupy.
  \<^item> \<open>NoPoints\<close>: a pure container (a group) with no points of its own;
  \<^item> \<open>Box lo hi\<close>: the axis-aligned bounding box of its points. A circle of radius
    \<open>r\<close> about \<open>c\<close> has the box \<open>c - (r, r, 0)\<close> to \<open>c + (r, r, 0)\<close>, so its centre is
    the middle of the box and its radius half the width;
  \<^item> \<open>Centred p\<close>: the size comes from the renderer (text layout), only the centre of
    the bounding box is fixed by the script;
  \<^item> \<open>Unknown\<close>: size and position both depend on the renderer.
\<close>

datatype extent = NoPoints | Box point point | Centred point | Unknown

fun join :: "extent \<Rightarrow> extent \<Rightarrow> extent" where
  "join NoPoints e = e"
| "join e NoPoints = e"
| "join (Box a b) (Box c d) = Box (vmin a c) (vmax b d)"
| "join _ _ = Unknown"

fun shift_extent :: "point \<Rightarrow> extent \<Rightarrow> extent" where
  "shift_extent v NoPoints = NoPoints"
| "shift_extent v (Box lo hi) = Box (vadd lo v) (vadd hi v)"
| "shift_extent v (Centred p) = Centred (vadd p v)"
| "shift_extent v Unknown = Unknown"

text \<open>Scaling every point \<open>p\<close> to \<open>c + k (p - c)\<close>; a negative factor swaps the corners.\<close>

definition scale_point :: "real \<Rightarrow> point \<Rightarrow> point \<Rightarrow> point" where
  "scale_point k c p = vadd c (smul k (vsub p c))"

fun scale_extent :: "real \<Rightarrow> point \<Rightarrow> extent \<Rightarrow> extent" where
  "scale_extent k c NoPoints = NoPoints"
| "scale_extent k c (Box lo hi) =
     Box (vmin (scale_point k c lo) (scale_point k c hi))
         (vmax (scale_point k c lo) (scale_point k c hi))"
| "scale_extent k c (Centred p) = Centred (scale_point k c p)"
| "scale_extent k c Unknown = Unknown"

fun forget_extent :: "extent \<Rightarrow> extent" where
  "forget_extent NoPoints = NoPoints"
| "forget_extent _ = Unknown"

text \<open>
  The library picks, on each axis, the least coordinate for a negative key, the greatest
  for a positive key and the middle for key \<open>0\<close>.
\<close>

definition extremum :: "real \<Rightarrow> real \<Rightarrow> real \<Rightarrow> real" where
  "extremum key lo hi = (if key < 0 then lo else if key = 0 then (lo + hi) / 2 else hi)"

fun critical_point :: "extent \<Rightarrow> point \<Rightarrow> point option" where
  "critical_point NoPoints d = Some ORIGIN"
| "critical_point (Box (lx, ly, lz) (hx, hy, hz)) (dx, dy, dz) =
     Some (extremum dx lx hx, extremum dy ly hy, extremum dz lz hz)"
| "critical_point (Centred p) d = (if d = ORIGIN then Some p else None)"
| "critical_point Unknown d = None"

section \<open>Drawable objects\<close>

text \<open>
  The classes of the animation library the script instantiates, with the constructor
  arguments that fix their shape. Colours, opacities, stroke widths and line styles
  change no membership, order or position and are left out.
\<close>

datatype kind =
    KVMobject
  | KVGroup
  | KThoughtBubble
  | KNarrator string
  | KCircle real
  | KRectangle real real
  | KText string nat
  | KMathTex string
  | KNumberPlane "real \<times> real \<times> real" "real \<times> real \<times> real"
  | KSurface (surface_func: "real \<Rightarrow> real \<Rightarrow> point") "real \<times> real" "real \<times> real"
  | KSphere real
  | KAnnulus real real
  | KParametricFunction (curve_func: "real \<Rightarrow> point") (t_range: "real \<times> real")
  | KNumberLine "real \<times> real \<times> real"
  | KLine point point

text \<open>
  Every object the script constructs is a distinct Python object; \<open>ident\<close> is its
  identity (the scene compares objects by identity), \<open>own\<close> the extent of its own points
  and \<open>submobjects\<close> its children.
\<close>

datatype mobject =
  Mobject (ident: nat) (kind: kind) (own: extent) (submobjects: "mobject list")

fun family :: "mobject \<Rightarrow> mobject list" where
  "family (Mobject i k e subs) = Mobject i k e subs # concat (map family subs)"

definition bounds :: "mobject \<Rightarrow> extent" where
  "bounds m = foldr join (map own (family m)) NoPoints"

definition get_critical_point :: "mobject \<Rightarrow> point \<Rightarrow> point option" where
  "get_critical_point m d = critical_point (bounds m) d"

definition get_center :: "mobject \<Rightarrow> point option" where
  "get_center m = get_critical_point m ORIGIN"

fun shift :: "point \<Rightarrow> mobject \<Rightarrow> mobject" where
  "shift v (Mobject i k e subs) = Mobject i k (shift_extent v e) (map (shift v) subs)"

fun scale_about :: "real \<Rightarrow> point \<Rightarrow> mobject \<Rightarrow> mobject" where
  "scale_about f c (Mobject i k e subs) =
     Mobject i k (scale_extent f c e) (map (scale_about f c) subs)"

fun forget :: "mobject \<Rightarrow> mobject" where
  "forget (Mobject i k e subs) = Mobject i k (forget_extent e) (map forget subs)"

text \<open>\<open>mob.scale(f)\<close> scales about the centre of the bounding box of the whole family.\<close>

definition scale :: "real \<Rightarrow> mobject \<Rightarrow> mobject" where
  "scale f m = (case get_center m of Some c \<Rightarrow> scale_about f c m | None \<Rightarrow> forget m)"

text \<open>
  \<open>self.next_to(target, direction, buff)\<close> moves \<open>self\<close> so that its critical point
  opposite to \<open>direction\<close> lies \<open>buff\<close> beyond the target's critical point in
  \<open>direction\<close>. The library's default \<open>buff\<close> between two objects is \<open>0.25\<close>.
\<close>

definition neg :: "point \<Rightarrow> point" where
  "neg d = smul (-1) d"

definition next_to :: "mobject \<Rightarrow> mobject \<Rightarrow> point \<Rightarrow> real \<Rightarrow> mobject" where
  "next_to self target direction buff =
     (case (get_critical_point target direction, get_critical_point self (neg direction)) of
        (Some target_point, Some point_to_align) \<Rightarrow>
          shift (vadd (vsub target_point point_to_align) (smul buff direction)) self
      | _ \<Rightarrow> forget self)"

definition DEFAULT_MOBJECT_TO_MOBJECT_BUFFER :: real where
  "DEFAULT_MOBJECT_TO_MOBJECT_BUFFER = 0.25"

definition DEFAULT_MOBJECT_TO_EDGE_BUFFER :: real where
  "DEFAULT_MOBJECT_TO_EDGE_BUFFER = 0.5"

text \<open>
  \<open>self.move_to(p)\<close> shifts \<open>self\<close> so that the centre of its bounding box is \<open>p\<close>. For an
  object whose size the renderer decides the centre is all that is known afterwards.
\<close>

definition move_to :: "mobject \<Rightarrow> point option \<Rightarrow> mobject" where
  "move_to self target =
     (case target of
        None \<Rightarrow> forget self
      | Some p \<Rightarrow>
          (case get_center self of
             Some c \<Rightarrow> shift (vsub p c) self
           | None \<Rightarrow>
               (case self of
                  Mobject i k Unknown [] \<Rightarrow> Mobject i k (Centred p) []
                | _ \<Rightarrow> forget self)))"

text \<open>\<open>self.add(*ms)\<close>: the new children go to the end, an object already a child moves there.\<close>

fun add :: "mobject \<Rightarrow> mobject list \<Rightarrow> mobject" where
  "add (Mobject i k e subs) ms =
     Mobject i k e (filter (\<lambda>x. ident x \<notin> ident ` set ms) subs @ ms)"

text \<open>
  The errors the script can meet: \<open>AssetNotFound f\<close> is the library's error for a
  vector-image file \<open>f\<close> that does not resolve, \<open>IndexError\<close> is Python's for an index out
  of range.
\<close>

datatype error = AssetNotFound string | IndexError

text \<open>
  \<open>self[i]\<close> indexes the list made of \<open>self\<close> (when it has points of its own) followed by
  its children; a negative index counts from the end.
\<close>

definition split_mobject :: "mobject \<Rightarrow> mobject list" where
  "split_mobject m = (if own m \<noteq> NoPoints then [m] else []) @ submobjects m"

definition getitem :: "mobject \<Rightarrow> int \<Rightarrow> error + mobject" where
  "getitem m i =
     (let parts = split_mobject m; n = int (length parts); j = (if i < 0 then n + i else i)
      in if 0 \<le> j \<and> j < n then Inr (parts ! nat j) else Inl IndexError)"

section \<open>The scene, the renderer's instructions and the allocator\<close>

datatype animation =
    Create mobject
  | Write mobject
  | FadeIn mobject "point option"
  | FadeOut mobject
  | Transform mobject mobject
  | AnimateScale mobject real

text \<open>
  What a run leaves behind, in order: \<open>Call name\<close> when a method of the scene class is
  entered, \<open>Play batch run_time\<close> for one \<open>self.play(...)\<close> (the animations of a batch are
  shown together), \<open>Wait d\<close> for \<open>self.wait(d)\<close>.
\<close>

datatype event = Call string | Play "animation list" "real option" | Wait real

text \<open>
  The state a run works on: the scene's list of objects, what has been played, the
  number of objects constructed so far (the identity of the next one), the camera
  angles and the library's global frame configuration.
\<close>

record world =
  mobjects :: "mobject list"
  trace :: "event list"
  fresh :: nat
  phi :: real
  theta :: real
  background_color :: string
  frame_width :: real
  frame_height :: real
  pixel_width :: nat
  pixel_height :: nat

text \<open>
  The outside of the program: the files a vector image can be loaded from. A file that
  resolves gives the bounding box of the loaded figure.
\<close>

record env =
  assets :: "string \<Rightarrow> (point \<times> point) option"

definition new :: "kind \<Rightarrow> extent \<Rightarrow> world \<Rightarrow> mobject \<times> world" where
  "new k e w = (Mobject (fresh w) k e [], w\<lparr>fresh := Suc (fresh w)\<rparr>)"

definition call :: "string \<Rightarrow> world \<Rightarrow> world" where
  "call name w = w\<lparr>trace := trace w @ [Call name]\<rparr>"

definition wait :: "real \<Rightarrow> world \<Rightarrow> world" where
  "wait d w = w\<lparr>trace := trace w @ [Wait d]\<rparr>"

subsection \<open>Playing a batch\<close>

text \<open>
  \<open>Create\<close>, \<open>Write\<close> and \<open>FadeIn\<close> introduce their object to the scene, \<open>FadeOut\<close> removes it
  when the batch ends, \<open>Transform\<close> and \<open>.animate\<close> change an object in place. An object
  animated without being introduced is put on the scene first. Objects are compared by
  identity. The script never animates a group while one of its members is on the scene
  by itself (or the converse), so adding and removing act on the top-level list only.
\<close>

fun is_introducer :: "animation \<Rightarrow> bool" where
  "is_introducer (Create m) = True"
| "is_introducer (Write m) = True"
| "is_introducer (FadeIn m s) = True"
| "is_introducer _ = False"

fun is_remover :: "animation \<Rightarrow> bool" where
  "is_remover (FadeOut m) = True"
| "is_remover _ = False"

fun animated :: "animation \<Rightarrow> mobject" where
  "animated (Create m) = m"
| "animated (Write m) = m"
| "animated (FadeIn m s) = m"
| "animated (FadeOut m) = m"
| "animated (Transform m t) = m"
| "animated (AnimateScale m f) = m"

definition in_scene :: "mobject \<Rightarrow> mobject list \<Rightarrow> bool" where
  "in_scene m ms = (ident m \<in> ident ` set (concat (map family ms)))"

definition scene_remove :: "mobject \<Rightarrow> mobject list \<Rightarrow> mobject list" where
  "scene_remove m ms = filter (\<lambda>x. ident x \<noteq> ident m) ms"

definition scene_add :: "mobject \<Rightarrow> mobject list \<Rightarrow> mobject list" where
  "scene_add m ms = scene_remove m ms @ [m]"

definition add_if_absent :: "mobject \<Rightarrow> mobject list \<Rightarrow> mobject list" where
  "add_if_absent m ms = (if in_scene m ms then ms else scene_add m ms)"

definition add_mobjects_from_animations :: "animation list \<Rightarrow> mobject list \<Rightarrow> mobject list" where
  "add_mobjects_from_animations anims ms =
     foldl (\<lambda>ms a. if is_introducer a then ms else add_if_absent (animated a) ms) ms anims"

definition begin_animations :: "animation list \<Rightarrow> mobject list \<Rightarrow> mobject list" where
  "begin_animations anims ms =
     foldl (\<lambda>ms a. if is_introducer a then add_if_absent (animated a) ms else ms) ms anims"

definition update_mobject :: "nat \<Rightarrow> (mobject \<Rightarrow> mobject) \<Rightarrow> mobject list \<Rightarrow> mobject list" where
  "update_mobject i f ms = map (\<lambda>x. if ident x = i then f x else x) ms"

fun finish :: "animation \<Rightarrow> mobject list \<Rightarrow> mobject list" where
  "finish (Transform m t) ms =
     update_mobject (ident m) (\<lambda>x. Mobject (ident x) (kind x) (own t) (submobjects x)) ms"
| "finish (AnimateScale m f) ms = update_mobject (ident m) (scale f) ms"
| "finish _ ms = ms"

definition clean_up :: "animation \<Rightarrow> mobject list \<Rightarrow> mobject list" where
  "clean_up a ms = (if is_remover a then scene_remove (animated a) ms else ms)"

definition play_mobjects :: "animation list \<Rightarrow> mobject list \<Rightarrow> mobject list" where
  "play_mobjects anims ms0 =
     (let ms = add_mobjects_from_animations anims ms0;
          ms = begin_animations anims ms;
          ms = foldl (\<lambda>ms a. clean_up a (finish a ms)) ms anims
      in ms)"

definition play :: "animation list \<Rightarrow> real option \<Rightarrow> world \<Rightarrow> world" where
  "play anims run_time w =
     w\<lparr>mobjects := play_mobjects anims (mobjects w),
       trace := trace w @ [Play anims run_time]\<rparr>"

subsection \<open>Constructors of the library classes\<close>

definition VMobject :: "world \<Rightarrow> mobject \<times> world" where
  "VMobject w = new KVMobject NoPoints w"

definition VGroup :: "mobject list \<Rightarrow> world \<Rightarrow> mobject \<times> world" where
  "VGroup ms w = (let (g, w) = new KVGroup NoPoints w in (add g ms, w))"

definition Circle :: "real \<Rightarrow> world \<Rightarrow> mobject \<times> world" where
  "Circle radius w = new (KCircle radius) (Box (- radius, - radius, 0) (radius, radius, 0)) w"

definition Rectangle :: "real \<Rightarrow> real \<Rightarrow> world \<Rightarrow> mobject \<times> world" where
  "Rectangle height width w =
     new (KRectangle height width)
       (Box (- width / 2, - height / 2, 0) (width / 2, height / 2, 0)) w"

definition Text :: "string \<Rightarrow> nat \<Rightarrow> world \<Rightarrow> mobject \<times> world" where
  "Text t font_size w = new (KText t font_size) Unknown w"

definition MathTex :: "string \<Rightarrow> world \<Rightarrow> mobject \<times> world" where
  "MathTex t w = new (KMathTex t) Unknown w"

definition Sphere :: "real \<Rightarrow> world \<Rightarrow> mobject \<times> world" where
  "Sphere radius w = new (KSphere radius) Unknown w"

definition Annulus :: "real \<Rightarrow> real \<Rightarrow> world \<Rightarrow> mobject \<times> world" where
  "Annulus inner_radius outer_radius w = new (KAnnulus inner_radius outer_radius) Unknown w"

definition Line :: "point \<Rightarrow> point \<Rightarrow> world \<Rightarrow> mobject \<times> world" where
  "Line a b w = new (KLine a b) Unknown w"

definition Surface ::
  "(real \<Rightarrow> real \<Rightarrow> point) \<Rightarrow> real \<times> real \<Rightarrow> real \<times> real \<Rightarrow> world \<Rightarrow> mobject \<times> world" where
  "Surface func u_range v_range w = new (KSurface func u_range v_range) Unknown w"

definition ParametricFunction :: "(real \<Rightarrow> point) \<Rightarrow> real \<times> real \<Rightarrow> world \<Rightarrow> mobject \<times> world" where
  "ParametricFunction func rng w = new (KParametricFunction func rng) Unknown w"

text \<open>A number plane owns its two axes, which the script reaches as \<open>x_axis\<close> and \<open>y_axis\<close>.\<close>

definition NumberPlane ::
  "real \<times> real \<times> real \<Rightarrow> real \<times> real \<times> real \<Rightarrow> world \<Rightarrow> mobject \<times> world" where
  "NumberPlane x_range y_range w =
     (let (plane, w) = new (KNumberPlane x_range y_range) Unknown w;
          (x, w) = new (KNumberLine x_range) Unknown w;
          (y, w) = new (KNumberLine y_range) Unknown w
      in (add plane [x, y], w))"

definition x_axis :: "mobject \<Rightarrow> mobject" where
  "x_axis plane = submobjects plane ! 0"

definition y_axis :: "mobject \<Rightarrow> mobject" where
  "y_axis plane = submobjects plane ! 1"

text \<open>A rotation turns the points; where they end up is not tracked.\<close>

definition rotate :: "real \<Rightarrow> mobject \<Rightarrow> mobject" where
  "rotate angle m = forget m"

fun sgn3 :: "point \<Rightarrow> point" where
  "sgn3 (a, b, c) = (sgn a, sgn b, sgn c)"

fun vmul :: "point \<Rightarrow> point \<Rightarrow> point" where
  "vmul (a, b, c) (d, e, f) = (a * d, b * e, c * f)"

fun vabs :: "point \<Rightarrow> point" where
  "vabs (a, b, c) = (\<bar>a\<bar>, \<bar>b\<bar>, \<bar>c\<bar>)"

text \<open>\<open>self.to_edge(direction)\<close> moves \<open>self\<close> to the border of the configured frame.\<close>

definition to_edge :: "mobject \<Rightarrow> point \<Rightarrow> real \<Rightarrow> world \<Rightarrow> mobject" where
  "to_edge self direction buff w =
     (case get_critical_point self direction of
        None \<Rightarrow> forget self
      | Some point_to_align \<Rightarrow>
          (let target_point = vmul (sgn3 direction) (frame_width w / 2, frame_height w / 2, 0);
               shift_val = vsub (vsub target_point point_to_align) (smul buff direction)
           in shift (vmul shift_val (vabs (sgn3 direction))) self))"

definition DEGREES :: real where
  "DEGREES = 2 * pi / 360"

text \<open>
  A scene as the library hands it to \<open>construct\<close>: nothing on it, nothing played, and the
  library's default camera and frame.
\<close>

definition initial_world :: world where
  "initial_world =
     \<lparr>mobjects = [], trace = [], fresh = 0, phi = 0, theta = - 90 * DEGREES,
      background_color = ''#000000'', frame_width = 128 / 9, frame_height = 8,
      pixel_width = 1920, pixel_height = 1080\<rparr>"

definition set_camera_orientation :: "real \<Rightarrow> real \<Rightarrow> world \<Rightarrow> world" where
  "set_camera_orientation p t w = w\<lparr>phi := p, theta := t\<rparr>"

section \<open>The script's own classes\<close>

text \<open>
  \<open>ThoughtBubble.__init__\<close>: the bubble itself (no points of its own), the group
  \<open>bubbles\<close>, the main circle, then the loop over \<open>range(3)\<close> that builds each trailing
  circle, places it below and left of the main circle and adds it to the group.
\<close>

fun ThoughtBubble_loop :: "mobject \<Rightarrow> nat list \<Rightarrow> mobject \<times> world \<Rightarrow> mobject \<times> world" where
  "ThoughtBubble_loop main_bubble [] (bubbles, w) = (bubbles, w)"
| "ThoughtBubble_loop main_bubble (i # rest) (bubbles, w) =
     (let (bubble, w) = Circle (0.15 - real i * 0.03) w;
          bubble = next_to bubble main_bubble (vadd DOWN LEFT) (- 0.1 + real i * 0.1);
          bubbles = add bubbles [bubble]
      in ThoughtBubble_loop main_bubble rest (bubbles, w))"

definition ThoughtBubble :: "world \<Rightarrow> mobject \<times> world" where
  "ThoughtBubble w0 =
     (let (self, w) = new KThoughtBubble NoPoints w0;
          (bubbles, w) = VGroup [] w;
          (main_bubble, w) = Circle 0.7 w;
          (bubbles, w) = ThoughtBubble_loop main_bubble [0 ..< 3] (bubbles, w)
      in (add self [main_bubble, bubbles], w))"

text \<open>
  \<open>self[0].get_center()\<close>. The centre is \<open>None\<close> when the position of the object at index
  \<open>0\<close> is not determined by the script.
\<close>

definition get_bubble_center :: "mobject \<Rightarrow> error + point option" where
  "get_bubble_center self =
     (case getitem self 0 of Inl e \<Rightarrow> Inl e | Inr m \<Rightarrow> Inr (get_center m))"

text \<open>
  \<open>Narrator.__init__\<close>: the vector image is loaded from \<open>os.path.join("assets",
  "narrator.svg")\<close>, which raises when the file does not resolve, and is then scaled.
\<close>

definition os_path_join :: "string \<Rightarrow> string \<Rightarrow> string" where
  "os_path_join a b =
     (if b \<noteq> [] \<and> hd b = CHR ''/'' then b
      else if a = [] \<or> last a = CHR ''/'' then a @ b
      else a @ ''/'' @ b)"

definition Narrator :: "env \<Rightarrow> world \<Rightarrow> (error + mobject) \<times> world" where
  "Narrator e w0 =
     (let file_name = os_path_join ''assets'' ''narrator.svg''
      in case assets e file_name of
           None \<Rightarrow> (Inl (AssetNotFound file_name), w0)
         | Some (lo, hi) \<Rightarrow>
             (let (self, w) = new (KNarrator file_name) (Box lo hi) w0
              in (Inr (scale 1.5 self), w)))"

section \<open>The scene class \<open>AdvancedRelativity\<close>\<close>

text \<open>
  Each method takes the world and returns it updated. A method that can raise returns
  the error beside the world as it was when the error was raised: nothing in the script
  catches an exception, so an error ends the run.
\<close>

definition configure_global_settings :: "world \<Rightarrow> world" where
  "configure_global_settings w0 =
     (let w = call ''configure_global_settings'' w0;
          w = w\<lparr>background_color := ''#1a1a1a''\<rparr>;
          w = w\<lparr>frame_width := 16\<rparr>;
          w = w\<lparr>frame_height := 9\<rparr>;
          w = w\<lparr>pixel_width := 1920\<rparr>;
          w = w\<lparr>pixel_height := 1080\<rparr>
      in w)"

definition create_narrator :: "env \<Rightarrow> world \<Rightarrow> (error + mobject) \<times> world" where
  "create_narrator e w0 =
     (let w = call ''create_narrator'' w0
      in case Narrator e w of
           (Inl err, w) \<Rightarrow> (Inl err, w)
         | (Inr narrator, w) \<Rightarrow>
             (let narrator = to_edge narrator LEFT DEFAULT_MOBJECT_TO_EDGE_BUFFER w;
                  narrator = shift DOWN narrator
              in (Inr narrator, w)))"

definition show_title :: "world \<Rightarrow> world" where
  "show_title w0 =
     (let w = call ''show_title'' w0;
          (title, w) = Text ''Einstein's Relativity'' 72 w;
          (subtitle, w) = Text ''A Modern Visualization'' 36 w;
          subtitle = next_to subtitle title DOWN DEFAULT_MOBJECT_TO_MOBJECT_BUFFER;
          w = play [Write title, FadeIn subtitle (Some UP)] None w;
          w = wait 2 w;
          w = play [FadeOut title, FadeOut subtitle] None w
      in w)"

definition introduce_narrator :: "mobject \<Rightarrow> world \<Rightarrow> error option \<times> world" where
  "introduce_narrator narrator w0 =
     (let w = call ''introduce_narrator'' w0;
          (bubble, w) = ThoughtBubble w;
          bubble = scale 0.7 bubble;
          bubble = next_to bubble narrator UP DEFAULT_MOBJECT_TO_MOBJECT_BUFFER;
          (caption, w) = Text ''Let's explore spacetime!'' 24 w
      in case get_bubble_center bubble of
           Inl err \<Rightarrow> (Some err, w)
         | Inr c \<Rightarrow>
             (let caption = move_to caption c;
                  w = play [Create bubble, Write caption] None w;
                  w = wait 2 w;
                  w = play [FadeOut bubble, FadeOut caption] None w
              in (None, w)))"

definition show_narration :: "mobject \<Rightarrow> string \<Rightarrow> world \<Rightarrow> world" where
  "show_narration narrator t w0 =
     (let w = call ''show_narration'' w0;
          (bubble, w) = ThoughtBubble w;
          bubble = next_to (scale 0.7 bubble) narrator UP DEFAULT_MOBJECT_TO_MOBJECT_BUFFER;
          (caption, w) = Text t 24 w;
          caption = move_to caption (get_center bubble);
          w = play [Create bubble, Write caption] None w;
          w = wait 3 w;
          w = play [FadeOut bubble, FadeOut caption] None w
      in w)"

definition create_spacetime_diagram :: "world \<Rightarrow> mobject \<times> world" where
  "create_spacetime_diagram w0 =
     (let w = call ''create_spacetime_diagram'' w0;
          (grid, w) = NumberPlane (-3, 3, 1) (-3, 3, 1) w;
          (x_label, w) = Text ''Space'' 24 w;
          x_label = next_to x_label (x_axis grid) RIGHT DEFAULT_MOBJECT_TO_MOBJECT_BUFFER;
          (t_label, w) = Text ''Time'' 24 w;
          t_label = next_to t_label (y_axis grid) UP DEFAULT_MOBJECT_TO_MOBJECT_BUFFER
      in VGroup [grid, x_label, t_label] w)"

definition create_reference_frames :: "world \<Rightarrow> (mobject \<times> mobject) \<times> world" where
  "create_reference_frames w0 =
     (let w = call ''create_reference_frames'' w0;
          (earth_frame, w) = Rectangle 2 1 w;
          (ship_frame, w) = Rectangle 2 1 w;
          earth_frame = shift (smul 2 LEFT) earth_frame;
          ship_frame = shift (smul 2 RIGHT) ship_frame;
          (earth_label, w) = Text ''Earth'' 20 w;
          earth_label = next_to earth_label earth_frame DOWN DEFAULT_MOBJECT_TO_MOBJECT_BUFFER;
          (ship_label, w) = Text ''Ship'' 20 w;
          ship_label = next_to ship_label ship_frame DOWN DEFAULT_MOBJECT_TO_MOBJECT_BUFFER;
          (earth_frame, w) = VGroup [earth_frame, earth_label] w;
          (ship_frame, w) = VGroup [ship_frame, ship_label] w
      in ((earth_frame, ship_frame), w))"

definition show_time_dilation :: "mobject \<Rightarrow> mobject \<Rightarrow> mobject \<Rightarrow> world \<Rightarrow> world" where
  "show_time_dilation earth_frame ship_frame narrator w0 =
     (let w = call ''show_time_dilation'' w0;
          (earth_clock, w) = Circle 0.3 w;
          earth_clock = next_to earth_clock earth_frame UP DEFAULT_MOBJECT_TO_MOBJECT_BUFFER;
          (ship_clock, w) = Circle 0.3 w;
          ship_clock = next_to ship_clock ship_frame UP DEFAULT_MOBJECT_TO_MOBJECT_BUFFER;
          w = play [Create earth_clock, Create ship_clock] None w;
          w = play [AnimateScale earth_clock 1.0, AnimateScale ship_clock 0.8] (Some 2) w;
          w = show_narration narrator ''Time runs slower\<newline>for fast-moving objects!'' w;
          w = play [FadeOut earth_clock, FadeOut ship_clock] None w
      in w)"

definition special_relativity_chapter :: "mobject \<Rightarrow> world \<Rightarrow> world" where
  "special_relativity_chapter narrator w0 =
     (let w = call ''special_relativity_chapter'' w0;
          (chapter_title, w) = Text ''Special Relativity'' 48 w;
          chapter_title = to_edge chapter_title UP DEFAULT_MOBJECT_TO_EDGE_BUFFER w;
          w = play [Write chapter_title] None w;
          (diagram, w) = create_spacetime_diagram w;
          w = play [Create diagram] None w;
          ((earth_frame, ship_frame), w) = create_reference_frames w;
          w = show_time_dilation earth_frame ship_frame narrator w;
          w = play [FadeOut diagram, FadeOut chapter_title] None w;
          w = play [FadeOut earth_frame, FadeOut ship_frame] None w
      in w)"

text \<open>\<open>create_clock\<close> is defined by the script and called nowhere.\<close>

definition create_clock :: "world \<Rightarrow> mobject \<times> world" where
  "create_clock w0 =
     (let w = call ''create_clock'' w0;
          (face, w) = Circle 0.5 w;
          (hand, w) = Line ORIGIN (smul 0.4 UP) w
      in VGroup [face, hand] w)"

definition create_spacetime_curvature :: "world \<Rightarrow> (mobject \<times> mobject) \<times> world" where
  "create_spacetime_curvature w0 =
     (let w = call ''create_spacetime_curvature'' w0;
          (grid, w) = Surface (\<lambda>u v. (u, v, 0.5 * exp (- (u\<^sup>2 + v\<^sup>2)))) (-2, 2) (-2, 2) w;
          (mass, w) = Sphere 0.5 w
      in ((mass, grid), w))"

fun wave_circles :: "nat list \<Rightarrow> world \<Rightarrow> mobject list \<times> world" where
  "wave_circles [] w = ([], w)"
| "wave_circles (i # rest) w =
     (let (c, w) = Circle (0.5 + 0.5 * real i) w;
          (cs, w) = wave_circles rest w
      in (c # cs, w))"

definition show_gravitational_waves :: "mobject \<Rightarrow> world \<Rightarrow> world" where
  "show_gravitational_waves grid w0 =
     (let w = call ''show_gravitational_waves'' w0;
          (cs, w) = wave_circles [0 ..< 5] w;
          (waves, w) = VGroup cs w;
          animations = map Create (split_mobject waves)
      in play animations (Some 3) w)"

fun photon_paths :: "nat list \<Rightarrow> world \<Rightarrow> mobject list \<times> world" where
  "photon_paths [] w = ([], w)"
| "photon_paths (i # rest) w =
     (let (p, w) = ParametricFunction
                     (\<lambda>t. (1.5 * cos t, 1.5 * sin t, 0.5 * sin (2 * t))) (0, 2 * pi) w;
          (ps, w) = photon_paths rest w
      in (p # ps, w))"

definition create_photon_paths :: "world \<Rightarrow> mobject \<times> world" where
  "create_photon_paths w0 =
     (let w = call ''create_photon_paths'' w0;
          (paths, w) = photon_paths [0 ..< 5] w
      in VGroup paths w)"

fun play_each :: "mobject list \<Rightarrow> world \<Rightarrow> world" where
  "play_each [] w = w"
| "play_each (photon # rest) w = play_each rest (play [Create photon] (Some 0.5) w)"

definition show_black_hole :: "mobject \<Rightarrow> mobject \<Rightarrow> mobject \<Rightarrow> world \<Rightarrow> world" where
  "show_black_hole mass grid narrator w0 =
     (let w = call ''show_black_hole'' w0;
          (event_horizon, w) = Sphere 1 w;
          (accretion_disk, w) = Annulus 1.5 3 w;
          accretion_disk = rotate (pi / 4) accretion_disk;
          w = play [Transform mass event_horizon, AnimateScale grid 0.8, Create accretion_disk]
                None w;
          (photons, w) = create_photon_paths w;
          w = play_each (split_mobject photons) w
      in show_narration narrator
           ''Black holes warp spacetime\<newline>so severely that light\<newline>cannot escape!'' w)"

definition einstein_tex :: string where
  "einstein_tex =
     ''G_{'' @ [CHR 0x5C] @ ''mu'' @ [CHR 0x5C] @ ''nu} = '' @ [CHR 0x5C] @ ''frac{8''
       @ [CHR 0x5C] @ ''pi G}{c^4} T_{'' @ [CHR 0x5C] @ ''mu'' @ [CHR 0x5C] @ ''nu}''"

definition general_relativity_chapter :: "mobject \<Rightarrow> world \<Rightarrow> world" where
  "general_relativity_chapter narrator w0 =
     (let w = call ''general_relativity_chapter'' w0;
          w = set_camera_orientation (75 * DEGREES) (- 45 * DEGREES) w;
          (chapter_title, w) = Text ''General Relativity'' 48 w;
          w = play [Write chapter_title] None w;
          w = wait 1 w;
          ((mass, warped_grid), w) = create_spacetime_curvature w;
          (einstein_eq, w) = MathTex einstein_tex w;
          einstein_eq = to_edge einstein_eq UP DEFAULT_MOBJECT_TO_EDGE_BUFFER w;
          w = play [Create warped_grid, FadeIn mass None, Write einstein_eq] None w;
          w = show_gravitational_waves warped_grid w;
          w = show_black_hole mass warped_grid narrator w;
          w = play [FadeOut chapter_title, FadeOut einstein_eq] None w
      in w)"

definition show_conclusion :: "world \<Rightarrow> world" where
  "show_conclusion w0 =
     (let w = call ''show_conclusion'' w0;
          (final_text, w) =
            Text ''Relativity revolutionized our understanding\<newline>of space, time, and gravity!'' 36 w;
          w = play [Write final_text] None w;
          w = wait 3 w;
          w = play [FadeOut final_text] None w
      in w)"

definition construct :: "env \<Rightarrow> world \<Rightarrow> error option \<times> world" where
  "construct e w0 =
     (let w = call ''construct'' w0;
          w = set_camera_orientation (70 * DEGREES) (- 30 * DEGREES) w;
          w = configure_global_settings w;
          w = w\<lparr>background_color := ''#1a1a1a''\<rparr>;
          w = show_title w
      in case create_narrator e w of
           (Inl err, w) \<Rightarrow> (Some err, w)
         | (Inr narrator, w) \<Rightarrow>
             (let w = play [FadeIn narrator None] None w
              in case introduce_narrator narrator w of
                   (Some err, w) \<Rightarrow> (Some err, w)
                 | (None, w) \<Rightarrow>
                     (let w = special_relativity_chapter narrator w;
                          w = general_relativity_chapter narrator w;
                          w = show_conclusion w
                      in (None, w))))"

section \<open>Observations used to state the properties\<close>

text \<open>The circles collected in the group \<open>bubbles\<close> of a thought bubble.\<close>

definition trailing_circles :: "mobject \<Rightarrow> mobject list" where
  "trailing_circles b = concat (map submobjects (filter (\<lambda>m. kind m = KVGroup) (submobjects b)))"

text \<open>The radius a circle has on the canvas: half the width of its box.\<close>

definition circle_radius :: "mobject \<Rightarrow> real" where
  "circle_radius m = (case own m of Box (lx, ly, lz) (hx, hy, hz) \<Rightarrow> (hx - lx) / 2 | _ \<Rightarrow> 0)"

text \<open>
  What a caller may do to a shape after constructing it: move it by a vector, scale it
  (about the centre of its bounding box), or move its centre to a point.
\<close>

datatype placement = Shift point | Scale real | MoveTo point

fun apply_placement :: "placement \<Rightarrow> mobject \<Rightarrow> mobject" where
  "apply_placement (Shift v) m = shift v m"
| "apply_placement (Scale f) m = scale f m"
| "apply_placement (MoveTo p) m = move_to m (Some p)"

definition box_centre :: "point \<Rightarrow> point \<Rightarrow> point" where
  "box_centre lo hi = smul (1 / 2) (vadd lo hi)"

definition placed_bubble :: "placement list \<Rightarrow> world \<Rightarrow> mobject" where
  "placed_bubble ops w = fold apply_placement ops (fst (ThoughtBubble w))"

text \<open>
  The stages of the narrative, and the method of the scene class that plays each. The
  order of the stages in a run is the order in which these methods are entered.
\<close>

datatype stage = Title | NarratorIntro | SpecialRelativityChapter | GeneralRelativityChapter | Conclusion

definition stage_of_call :: "string \<Rightarrow> stage option" where
  "stage_of_call name =
     (if name = ''show_title'' then Some Title
      else if name = ''introduce_narrator'' then Some NarratorIntro
      else if name = ''special_relativity_chapter'' then Some SpecialRelativityChapter
      else if name = ''general_relativity_chapter'' then Some GeneralRelativityChapter
      else if name = ''show_conclusion'' then Some Conclusion
      else None)"

fun stage_of_event :: "event \<Rightarrow> stage option" where
  "stage_of_event (Call name) = stage_of_call name"
| "stage_of_event _ = None"

definition stage_sequence :: "event list \<Rightarrow> stage list" where
  "stage_sequence tr = List.map_filter stage_of_event tr"

text \<open>The file the narrator figure is loaded from, and two outsides: with and without it.\<close>

definition narrator_path :: string where
  "narrator_path = os_path_join ''assets'' ''narrator.svg''"

definition narrator_present :: env where
  "narrator_present =
     \<lparr>assets = (\<lambda>p. if p = ''assets/narrator.svg'' then Some ((-1, -1, 0), (1, 1, 0)) else None)\<rparr>"

definition narrator_missing :: env where
  "narrator_missing = \<lparr>assets = (\<lambda>p. None)\<rparr>"

text \<open>The settings \<open>configure_global_settings\<close> writes.\<close>

definition rendering_configuration :: "world \<Rightarrow> string \<times> real \<times> real \<times> nat \<times> nat" where
  "rendering_configuration w =
     (background_color w, frame_width w, frame_height w, pixel_width w, pixel_height w)"

text \<open>The third coordinate of a point.\<close>

definition height :: "point \<Rightarrow> real" where
  "height p = snd (snd p)"

subsection \<open>Shorthands for the proofs\<close>

text \<open>The tree of a thought bubble with given extents for its four circles.\<close>

definition bubble_with :: "nat \<Rightarrow> extent \<Rightarrow> extent \<Rightarrow> extent \<Rightarrow> extent \<Rightarrow> mobject" where
  "bubble_with n e e0 e1 e2 =
     Mobject n KThoughtBubble NoPoints
        [Mobject (n + 2) (KCircle 0.7) e [],
         Mobject (n + 1) KVGroup NoPoints
           [Mobject (n + 3) (KCircle 0.15) e0 [],
            Mobject (n + 4) (KCircle 0.12) e1 [],
            Mobject (n + 5) (KCircle 0.09) e2 []]]"

definition is_box :: "extent \<Rightarrow> bool" where
  "is_box e = (case e of Box lo hi \<Rightarrow> True | _ \<Rightarrow> False)"

definition is_bubble :: "nat \<Rightarrow> mobject \<Rightarrow> bool" where
  "is_bubble n b = (\<exists>e e0 e1 e2. b = bubble_with n e e0 e1 e2
          \<and> is_box e \<and> is_box e0 \<and> is_box e1 \<and> is_box e2)"

definition bubble_shaped :: "nat \<Rightarrow> mobject \<Rightarrow> bool" where
  "bubble_shaped n b = (\<exists>e e0 e1 e2. b = bubble_with n e e0 e1 e2)"

text \<open>
  The objects of the GeneralRelativity stage that are still on the canvas when the stage
  returns, \<open>n\<close> being the allocator's count when the stage is entered: the warped
  surface, the mass, the five wave circles, the accretion disk and the five photon paths.
\<close>

definition leftover :: "nat \<Rightarrow> mobject list" where
  "leftover n =
    [Mobject (n + 1)
       (KSurface (\<lambda>u v. (u, v, 0.5 * exp (- (u\<^sup>2 + v\<^sup>2)))) (-2, 2) (-2, 2)) Unknown [],
     Mobject (n + 2) (KSphere 0.5) Unknown [],
     Mobject (n + 4) (KCircle 0.5) (Box (-0.5, -0.5, 0) (0.5, 0.5, 0)) [],
     Mobject (n + 5) (KCircle 1) (Box (-1, -1, 0) (1, 1, 0)) [],
     Mobject (n + 6) (KCircle 1.5) (Box (-1.5, -1.5, 0) (1.5, 1.5, 0)) [],
     Mobject (n + 7) (KCircle 2) (Box (-2, -2, 0) (2, 2, 0)) [],
     Mobject (n + 8) (KCircle 2.5) (Box (-2.5, -2.5, 0) (2.5, 2.5, 0)) [],
     Mobject (n + 11) (KAnnulus 1.5 3) Unknown [],
     Mobject (n + 12)
       (KParametricFunction (\<lambda>t. (1.5 * cos t, 1.5 * sin t, 0.5 * sin (2 * t))) (0, 2 * pi))
       Unknown [],
     Mobject (n + 13)
       (KParametricFunction (\<lambda>t. (1.5 * cos t, 1.5 * sin t, 0.5 * sin (2 * t))) (0, 2 * pi))
       Unknown [],
     Mobject (n + 14)
       (KParametricFunction (\<lambda>t. (1.5 * cos t, 1.5 * sin t, 0.5 * sin (2 * t))) (0, 2 * pi))
       Unknown [],
     Mobject (n + 15)
       (KParametricFunction (\<lambda>t. (1.5 * cos t, 1.5 * sin t, 0.5 * sin (2 * t))) (0, 2 * pi))
       Unknown [],
     Mobject (n + 16)
       (KParametricFunction (\<lambda>t. (1.5 * cos t, 1.5 * sin t, 0.5 * sin (2 * t))) (0, 2 * pi))
       Unknown []]"

section \<open>The thought bubble\<close>

lemma upt3: "[0..<3] = [0, 1, 2]"
  by (simp add: upt_rec)

lemma upt5: "[0..<5] = [0, 1, 2, 3, 4]"
  by (simp add: upt_rec)

text \<open>The constructor unrolled: the tree it returns, for any state of the allocator.\<close>

lemma ThoughtBubble_eq:
  "ThoughtBubble w =
     (Mobject (fresh w) KThoughtBubble NoPoints
        [Mobject (fresh w + 2) (KCircle 0.7) (Box (-0.7, -0.7, 0) (0.7, 0.7, 0)) [],
         Mobject (fresh w + 1) KVGroup NoPoints
           [Mobject (fresh w + 3) (KCircle 0.15) (Box (-0.9, -0.9, 0) (-0.6, -0.6, 0)) [],
            Mobject (fresh w + 4) (KCircle 0.12) (Box (-0.94, -0.94, 0) (-0.7, -0.7, 0)) [],
            Mobject (fresh w + 5) (KCircle 0.09) (Box (-0.98, -0.98, 0) (-0.8, -0.8, 0)) []]],
      w\<lparr>fresh := fresh w + 6\<rparr>)"
  by (simp add: ThoughtBubble_def upt3 new_def VGroup_def Circle_def next_to_def
      get_critical_point_def bounds_def DOWN_def LEFT_def neg_def extremum_def)

text \<open>
  C3. Whatever the state it is constructed in, a thought bubble holds exactly three
  trailing circles; the \<open>i\<close>-th was constructed with radius \<open>0.15 - i * 0.03\<close>, that is
  \<open>0.15\<close>, \<open>0.12\<close>, \<open>0.09\<close>, which is also its radius on the canvas, and the radii
  strictly decrease.
\<close>

theorem ThoughtBubble_trailing_radii:
  "map kind (trailing_circles (fst (ThoughtBubble w)))
     = map (\<lambda>i. KCircle (0.15 - real i * 0.03)) [0, 1, 2]
   \<and> map circle_radius (trailing_circles (fst (ThoughtBubble w))) = [0.15, 0.12, 0.09]
   \<and> length (trailing_circles (fst (ThoughtBubble w))) = 3
   \<and> sorted_wrt (\<lambda>r r'. r > r') (map circle_radius (trailing_circles (fst (ThoughtBubble w))))"
  by (simp add: ThoughtBubble_eq trailing_circles_def circle_radius_def)

text \<open>
  C10. A constructed thought bubble has children, the object at index \<open>0\<close> is the main
  circle (constructed with radius \<open>0.7\<close>) and none of the trailing circles, and the
  anchor query, which reads index \<open>0\<close>, returns a point and not \<open>IndexError\<close>.
\<close>

theorem ThoughtBubble_index0_is_main:
  "submobjects (fst (ThoughtBubble w)) \<noteq> []
   \<and> getitem (fst (ThoughtBubble w)) 0
       = Inr (Mobject (fresh w + 2) (KCircle 0.7) (Box (-0.7, -0.7, 0) (0.7, 0.7, 0)) [])
   \<and> fresh w + 2 \<notin> ident ` set (trailing_circles (fst (ThoughtBubble w)))
   \<and> get_bubble_center (fst (ThoughtBubble w)) = Inr (Some (0, 0, 0))"
  by (simp add: ThoughtBubble_eq trailing_circles_def get_bubble_center_def getitem_def
      split_mobject_def get_center_def get_critical_point_def bounds_def ORIGIN_def
      extremum_def)

subsection \<open>The anchor under placement\<close>

lemma is_box_shift [simp]: "is_box (shift_extent v e) = is_box e"
  by (cases e) (simp_all add: is_box_def)

lemma is_box_scale [simp]: "is_box (scale_extent k c e) = is_box e"
  by (cases e) (simp_all add: is_box_def)

lemma is_box_join [simp]: "is_box a \<Longrightarrow> is_box b \<Longrightarrow> is_box (join a b)"
  by (cases a; cases b) (simp_all add: is_box_def)

lemma critical_point_box: "is_box e \<Longrightarrow> \<exists>c. critical_point e d = Some c"
  by (cases e; cases d) (auto simp: is_box_def)

lemma critical_point_Box_ORIGIN [simp]: "critical_point (Box lo hi) ORIGIN = Some (box_centre lo hi)"
  by (cases lo; cases hi) (simp add: ORIGIN_def box_centre_def extremum_def)

lemma join_NoPoints [simp]: "join e NoPoints = e"
  by (cases e) simp_all

lemma bounds_bubble_with:
  "is_box e \<Longrightarrow> is_box e0 \<Longrightarrow> is_box e1 \<Longrightarrow> is_box e2 \<Longrightarrow> is_box (bounds (bubble_with n e e0 e1 e2))"
  by (simp add: bounds_def bubble_with_def)

lemma get_center_bubble_with:
  assumes "is_box e" "is_box e0" "is_box e1" "is_box e2"
  shows "\<exists>c. get_center (bubble_with n e e0 e1 e2) = Some c"
  unfolding get_center_def get_critical_point_def
  using critical_point_box [OF bounds_bubble_with [OF assms]] by blast

lemma shift_bubble_with:
  "shift v (bubble_with n e e0 e1 e2)
    = bubble_with n (shift_extent v e) (shift_extent v e0) (shift_extent v e1) (shift_extent v e2)"
  by (simp add: bubble_with_def)

lemma scale_about_bubble_with:
  "scale_about k c (bubble_with n e e0 e1 e2)
    = bubble_with n (scale_extent k c e) (scale_extent k c e0) (scale_extent k c e1) (scale_extent k c e2)"
  by (simp add: bubble_with_def)

lemma is_bubbleI:
  "is_box e \<Longrightarrow> is_box e0 \<Longrightarrow> is_box e1 \<Longrightarrow> is_box e2 \<Longrightarrow> is_bubble n (bubble_with n e e0 e1 e2)"
  unfolding is_bubble_def by blast

lemma apply_placement_is_bubble:
  assumes "is_bubble n b"
  shows "is_bubble n (apply_placement op b)"
proof -
  obtain e e0 e1 e2 where b: "b = bubble_with n e e0 e1 e2"
    and bx: "is_box e" "is_box e0" "is_box e1" "is_box e2"
    using assms unfolding is_bubble_def by blast
  obtain c where c: "get_center (bubble_with n e e0 e1 e2) = Some c"
    using get_center_bubble_with [OF bx] by blast
  show ?thesis
  proof (cases op)
    case (Shift v)
    then show ?thesis using bx
      by (simp add: b shift_bubble_with is_bubbleI)
  next
    case (Scale k)
    then show ?thesis using bx c
      by (simp add: b scale_def scale_about_bubble_with is_bubbleI)
  next
    case (MoveTo p)
    then show ?thesis using bx c
      by (simp add: b move_to_def shift_bubble_with is_bubbleI)
  qed
qed

lemma fold_placement_is_bubble:
  "is_bubble n b \<Longrightarrow> is_bubble n (fold apply_placement ops b)"
  by (induction ops arbitrary: b) (simp_all add: apply_placement_is_bubble)

lemma ThoughtBubble_is_bubble: "is_bubble (fresh w) (fst (ThoughtBubble w))"
  unfolding is_bubble_def
  by (simp add: ThoughtBubble_eq bubble_with_def is_box_def)

lemma min_max_mid: "(min (x::real) y + max x y) / 2 = (x + y) / 2"
  by (simp add: min_def max_def)

lemma box_centre_scale:
  "box_centre (vmin (scale_point k c lo) (scale_point k c hi)) (vmax (scale_point k c lo) (scale_point k c hi))
    = scale_point k c (box_centre lo hi)"
  by (cases lo; cases hi; cases c) (simp add: box_centre_def scale_point_def min_def max_def field_simps)

lemma box_centre_shift: "box_centre (vadd lo v) (vadd hi v) = vadd (box_centre lo hi) v"
  by (cases lo; cases hi; cases v) (simp add: box_centre_def field_simps)

lemma get_bubble_center_bubble_with:
  "get_bubble_center (bubble_with n (Box lo hi) e0 e1 e2) = Inr (Some (box_centre lo hi))"
  by (simp add: get_bubble_center_def getitem_def split_mobject_def bubble_with_def get_center_def
      get_critical_point_def bounds_def)

text \<open>
  C4. Take a constructed thought bubble and move or scale it any number of times. The
  object at index \<open>0\<close> is still the main circle, the anchor query returns the centre of
  that circle, and a further shift, scaling or move of the whole bubble takes the anchor
  along: it is shifted by the same vector, or scaled about the same centre by the same
  factor.
\<close>

theorem anchor_is_main_circle_centre:
  "\<exists>lo hi c.
      getitem (placed_bubble ops w) 0 = Inr (Mobject (fresh w + 2) (KCircle 0.7) (Box lo hi) [])
    \<and> get_bubble_center (placed_bubble ops w) = Inr (Some (box_centre lo hi))
    \<and> get_center (placed_bubble ops w) = Some c
    \<and> get_bubble_center (shift v (placed_bubble ops w)) = Inr (Some (vadd (box_centre lo hi) v))
    \<and> get_bubble_center (scale k (placed_bubble ops w))
        = Inr (Some (scale_point k c (box_centre lo hi)))
    \<and> get_bubble_center (move_to (placed_bubble ops w) (Some p))
        = Inr (Some (vadd (box_centre lo hi) (vsub p c)))"
proof -
  have "is_bubble (fresh w) (placed_bubble ops w)"
    unfolding placed_bubble_def by (rule fold_placement_is_bubble [OF ThoughtBubble_is_bubble])
  then obtain e e0 e1 e2 where b: "placed_bubble ops w = bubble_with (fresh w) e e0 e1 e2"
    and bx: "is_box e" "is_box e0" "is_box e1" "is_box e2"
    unfolding is_bubble_def by blast
  obtain lo hi where e: "e = Box lo hi"
    using bx(1) by (cases e) (simp_all add: is_box_def)
  obtain c where c: "get_center (bubble_with (fresh w) e e0 e1 e2) = Some c"
    using get_center_bubble_with [OF bx] by blast
  have item: "getitem (bubble_with (fresh w) (Box lo hi) e0 e1 e2) 0
      = Inr (Mobject (fresh w + 2) (KCircle 0.7) (Box lo hi) [])"
    by (simp add: getitem_def split_mobject_def bubble_with_def)
  show ?thesis
    using c unfolding b e
    by (intro exI [of _ lo] exI [of _ hi] exI [of _ c])
       (simp add: item get_bubble_center_bubble_with shift_bubble_with scale_def
          scale_about_bubble_with move_to_def box_centre_scale box_centre_shift)
qed

section \<open>The order of the stages\<close>

lemma stage_sequence_append [simp]:
  "stage_sequence (xs @ ys) = stage_sequence xs @ stage_sequence ys"
  by (simp add: stage_sequence_def List.map_filter_def)

lemma stage_sequence_Nil [simp]: "stage_sequence [] = []"
  by (simp add: stage_sequence_def List.map_filter_def)

lemma stage_sequence_Cons [simp]:
  "stage_sequence (x # xs) = (case stage_of_event x of None \<Rightarrow> stage_sequence xs | Some s \<Rightarrow> s # stage_sequence xs)"
  by (simp add: stage_sequence_def List.map_filter_def split: option.splits)

lemma call_fields [simp]:
  "mobjects (call n w) = mobjects w" "fresh (call n w) = fresh w"
  "trace (call n w) = trace w @ [Call n]"
  "frame_width (call n w) = frame_width w" "frame_height (call n w) = frame_height w"
  by (simp_all add: call_def)

lemma wait_fields [simp]:
  "mobjects (wait d w) = mobjects w" "fresh (wait d w) = fresh w"
  "trace (wait d w) = trace w @ [Wait d]"
  "frame_width (wait d w) = frame_width w" "frame_height (wait d w) = frame_height w"
  by (simp_all add: wait_def)

lemma play_fields [simp]:
  "mobjects (play a r w) = play_mobjects a (mobjects w)" "fresh (play a r w) = fresh w"
  "trace (play a r w) = trace w @ [Play a r]"
  "frame_width (play a r w) = frame_width w" "frame_height (play a r w) = frame_height w"
  by (simp_all add: play_def)

lemma set_camera_orientation_fields [simp]:
  "mobjects (set_camera_orientation p t w) = mobjects w"
  "fresh (set_camera_orientation p t w) = fresh w"
  "trace (set_camera_orientation p t w) = trace w"
  "frame_width (set_camera_orientation p t w) = frame_width w"
  "frame_height (set_camera_orientation p t w) = frame_height w"
  by (simp_all add: set_camera_orientation_def)

lemmas ctor_defs = new_def VMobject_def VGroup_def Circle_def Rectangle_def Text_def MathTex_def
  Sphere_def Annulus_def Line_def Surface_def ParametricFunction_def NumberPlane_def

lemma st_show_title [simp]:
  "stage_sequence (trace (show_title w)) = stage_sequence (trace w) @ [Title]"
  by (simp add: show_title_def Let_def ctor_defs stage_of_call_def)

lemma st_show_conclusion [simp]:
  "stage_sequence (trace (show_conclusion w)) = stage_sequence (trace w) @ [Conclusion]"
  by (simp add: show_conclusion_def Let_def ctor_defs stage_of_call_def)

lemma st_show_narration [simp]:
  "stage_sequence (trace (show_narration n t w)) = stage_sequence (trace w)"
  by (simp add: show_narration_def Let_def ctor_defs ThoughtBubble_eq stage_of_call_def)

lemma st_configure [simp]:
  "stage_sequence (trace (configure_global_settings w)) = stage_sequence (trace w)"
  by (simp add: configure_global_settings_def Let_def stage_of_call_def)

lemma trace_wave_circles [simp]: "trace (snd (wave_circles ns w)) = trace w"
  by (induction ns arbitrary: w) (simp_all add: Circle_def new_def Let_def split_def)

lemma trace_photon_paths [simp]: "trace (snd (photon_paths ns w)) = trace w"
  by (induction ns arbitrary: w) (simp_all add: ParametricFunction_def new_def Let_def split_def)

lemma st_play_each [simp]:
  "stage_sequence (trace (play_each ps w)) = stage_sequence (trace w)"
  by (induction ps arbitrary: w) simp_all

lemma st_create_photon_paths [simp]:
  "stage_sequence (trace (snd (create_photon_paths w))) = stage_sequence (trace w)"
  by (simp add: create_photon_paths_def Let_def split_def VGroup_def new_def stage_of_call_def)

lemma st_show_gravitational_waves [simp]:
  "stage_sequence (trace (show_gravitational_waves g w)) = stage_sequence (trace w)"
  by (simp add: show_gravitational_waves_def Let_def split_def VGroup_def new_def stage_of_call_def)

lemma st_create_spacetime_curvature [simp]:
  "stage_sequence (trace (snd (create_spacetime_curvature w))) = stage_sequence (trace w)"
  by (simp add: create_spacetime_curvature_def Let_def split_def ctor_defs stage_of_call_def)

lemma st_show_black_hole [simp]:
  "stage_sequence (trace (show_black_hole m g n w)) = stage_sequence (trace w)"
  by (simp add: show_black_hole_def Let_def split_def ctor_defs stage_of_call_def)

lemma st_general_relativity_chapter [simp]:
  "stage_sequence (trace (general_relativity_chapter n w))
     = stage_sequence (trace w) @ [GeneralRelativityChapter]"
  by (simp add: general_relativity_chapter_def Let_def split_def ctor_defs stage_of_call_def)

lemma st_create_spacetime_diagram [simp]:
  "stage_sequence (trace (snd (create_spacetime_diagram w))) = stage_sequence (trace w)"
  by (simp add: create_spacetime_diagram_def Let_def split_def ctor_defs stage_of_call_def)

lemma st_create_reference_frames [simp]:
  "stage_sequence (trace (snd (create_reference_frames w))) = stage_sequence (trace w)"
  by (simp add: create_reference_frames_def Let_def split_def ctor_defs stage_of_call_def)

lemma st_show_time_dilation [simp]:
  "stage_sequence (trace (show_time_dilation ef sf n w)) = stage_sequence (trace w)"
  by (simp add: show_time_dilation_def Let_def split_def ctor_defs stage_of_call_def)

lemma st_special_relativity_chapter [simp]:
  "stage_sequence (trace (special_relativity_chapter n w))
     = stage_sequence (trace w) @ [SpecialRelativityChapter]"
  by (simp add: special_relativity_chapter_def Let_def split_def ctor_defs stage_of_call_def)

lemma forget_bubble_with:
  "forget (bubble_with n e e0 e1 e2)
    = bubble_with n (forget_extent e) (forget_extent e0) (forget_extent e1) (forget_extent e2)"
  by (simp add: bubble_with_def)

lemma bubble_shapedI [simp]: "bubble_shaped n (bubble_with n e e0 e1 e2)"
  unfolding bubble_shaped_def by blast

lemma bubble_shapedE:
  assumes "bubble_shaped n b"
  obtains e e0 e1 e2 where "b = bubble_with n e e0 e1 e2"
  using assms unfolding bubble_shaped_def by blast

lemma bubble_shaped_shift: "bubble_shaped n b \<Longrightarrow> bubble_shaped n (shift v b)"
  by (erule bubble_shapedE) (simp add: shift_bubble_with)

lemma bubble_shaped_forget: "bubble_shaped n b \<Longrightarrow> bubble_shaped n (forget b)"
  by (erule bubble_shapedE) (simp add: forget_bubble_with)

lemma bubble_shaped_scale: "bubble_shaped n b \<Longrightarrow> bubble_shaped n (scale f b)"
  by (erule bubble_shapedE)
     (simp add: scale_def forget_bubble_with scale_about_bubble_with split: option.splits)

lemma bubble_shaped_next_to: "bubble_shaped n b \<Longrightarrow> bubble_shaped n (next_to b t d buff)"
  unfolding next_to_def
  by (auto simp: bubble_shaped_shift bubble_shaped_forget split: option.splits)

lemma bubble_shaped_ThoughtBubble: "bubble_shaped (fresh w) (fst (ThoughtBubble w))"
proof -
  have "fst (ThoughtBubble w) = bubble_with (fresh w) (Box (-0.7, -0.7, 0) (0.7, 0.7, 0))
     (Box (-0.9, -0.9, 0) (-0.6, -0.6, 0)) (Box (-0.94, -0.94, 0) (-0.7, -0.7, 0))
     (Box (-0.98, -0.98, 0) (-0.8, -0.8, 0))"
    by (simp add: ThoughtBubble_eq bubble_with_def)
  then show ?thesis by simp
qed

lemma get_bubble_center_shaped:
  "bubble_shaped n b \<Longrightarrow> \<exists>c. get_bubble_center b = Inr c"
  by (erule bubble_shapedE)
     (simp add: get_bubble_center_def getitem_def split_mobject_def bubble_with_def)

lemma introduce_narrator_bubble:
  "\<exists>c. get_bubble_center (next_to (scale f (fst (ThoughtBubble w))) n d buff) = Inr c"
  by (rule get_bubble_center_shaped [OF bubble_shaped_next_to
        [OF bubble_shaped_scale [OF bubble_shaped_ThoughtBubble]]])

lemma introduce_narrator_returns [simp]: "fst (introduce_narrator n w) = None"
proof -
  obtain c where "get_bubble_center
      (next_to (scale 0.7 (fst (ThoughtBubble (call ''introduce_narrator'' w)))) n UP
         DEFAULT_MOBJECT_TO_MOBJECT_BUFFER) = Inr c"
    using introduce_narrator_bubble by blast
  then show ?thesis
    by (simp add: introduce_narrator_def Let_def split_def)
qed

lemma st_introduce_narrator [simp]:
  "stage_sequence (trace (snd (introduce_narrator n w)))
     = stage_sequence (trace w) @ [NarratorIntro]"
proof -
  obtain c where "get_bubble_center
      (next_to (scale 0.7 (fst (ThoughtBubble (call ''introduce_narrator'' w)))) n UP
         DEFAULT_MOBJECT_TO_MOBJECT_BUFFER) = Inr c"
    using introduce_narrator_bubble by blast
  then show ?thesis
    by (simp add: introduce_narrator_def Let_def split_def ThoughtBubble_eq ctor_defs
        stage_of_call_def)
qed

lemma create_narrator_missing:
  "assets e narrator_path = None \<Longrightarrow>
     create_narrator e w = (Inl (AssetNotFound narrator_path), call ''create_narrator'' w)"
  by (simp add: create_narrator_def Narrator_def narrator_path_def Let_def)

lemma create_narrator_found:
  "assets e narrator_path \<noteq> None \<Longrightarrow>
     \<exists>n. create_narrator e w = (Inr n, (call ''create_narrator'' w)\<lparr>fresh := Suc (fresh w)\<rparr>)"
  by (auto simp add: create_narrator_def Narrator_def narrator_path_def Let_def new_def)

lemma construct_found:
  assumes "assets e narrator_path \<noteq> None"
  shows "fst (construct e w) = None
    \<and> stage_sequence (trace (snd (construct e w)))
        = stage_sequence (trace w)
          @ [Title, NarratorIntro, SpecialRelativityChapter, GeneralRelativityChapter, Conclusion]"
proof -
  define w1 where "w1 = show_title ((configure_global_settings
      (set_camera_orientation (70 * DEGREES) (- 30 * DEGREES) (call ''construct'' w)))
        \<lparr>background_color := ''#1a1a1a''\<rparr>)"
  obtain n where n: "create_narrator e w1
      = (Inr n, (call ''create_narrator'' w1)\<lparr>fresh := Suc (fresh w1)\<rparr>)"
    using create_narrator_found [OF assms] by blast
  have w1: "stage_sequence (trace w1) = stage_sequence (trace w) @ [Title]"
    by (simp add: w1_def stage_of_call_def)
  have c: "construct e w =
     (case create_narrator e w1 of
           (Inl err, w) \<Rightarrow> (Some err, w)
         | (Inr narrator, w) \<Rightarrow>
             (let w = play [FadeIn narrator None] None w
              in case introduce_narrator narrator w of
                   (Some err, w) \<Rightarrow> (Some err, w)
                 | (None, w) \<Rightarrow>
                     (let w = special_relativity_chapter narrator w;
                          w = general_relativity_chapter narrator w;
                          w = show_conclusion w
                      in (None, w))))"
    by (simp add: construct_def w1_def Let_def)
  show ?thesis
    by (simp add: c n Let_def split_def w1 stage_of_call_def split: option.splits)
qed

lemma narrator_present_resolves: "assets narrator_present narrator_path \<noteq> None"
  by (simp add: narrator_present_def narrator_path_def os_path_join_def)

lemma construct_aborts:
  "assets e narrator_path = None \<Longrightarrow> fst (construct e w) \<noteq> None"
  by (simp add: construct_def Let_def create_narrator_missing)

text \<open>
  C1. From any starting state, a run of \<open>construct\<close> that returns normally has entered
  the five stage methods once each, in the order Title, NarratorIntro,
  SpecialRelativityChapter, GeneralRelativityChapter, Conclusion; a run that does not
  return normally is cut short after Title, so no run reorders or repeats a stage.
  When the narrator's file resolves the run returns normally, and a second run on the
  state the first one left appends the same five stages again.
\<close>

theorem construct_stage_order:
  "stage_sequence (trace (snd (construct e w)))
     = stage_sequence (trace w)
       @ (if fst (construct e w) = None
          then [Title, NarratorIntro, SpecialRelativityChapter, GeneralRelativityChapter,
                Conclusion]
          else [Title])
   \<and> (assets e narrator_path \<noteq> None \<longrightarrow>
      fst (construct e w) = None
    \<and> fst (construct e (snd (construct e w))) = None
    \<and> stage_sequence (trace (snd (construct e (snd (construct e w)))))
        = stage_sequence (trace w)
          @ [Title, NarratorIntro, SpecialRelativityChapter, GeneralRelativityChapter, Conclusion]
          @ [Title, NarratorIntro, SpecialRelativityChapter, GeneralRelativityChapter, Conclusion])"
proof (intro conjI impI)
  show "stage_sequence (trace (snd (construct e w)))
     = stage_sequence (trace w)
       @ (if fst (construct e w) = None
          then [Title, NarratorIntro, SpecialRelativityChapter, GeneralRelativityChapter,
                Conclusion]
          else [Title])"
  proof (cases "assets e narrator_path")
    case None
    have "stage_sequence (trace (snd (construct e w))) = stage_sequence (trace w) @ [Title]"
      by (simp add: construct_def Let_def create_narrator_missing [OF None] stage_of_call_def)
    then show ?thesis
      using construct_aborts [OF None, of w] by simp
  next
    case (Some b)
    then have "assets e narrator_path \<noteq> None"
      by simp
    from construct_found [OF this, of w] show ?thesis
      by simp
  qed
next
  assume a: "assets e narrator_path \<noteq> None"
  show "fst (construct e w) = None"
    using construct_found [OF a] by blast
  show "fst (construct e (snd (construct e w))) = None"
    using construct_found [OF a] by blast
  show "stage_sequence (trace (snd (construct e (snd (construct e w)))))
        = stage_sequence (trace w)
          @ [Title, NarratorIntro, SpecialRelativityChapter, GeneralRelativityChapter, Conclusion]
          @ [Title, NarratorIntro, SpecialRelativityChapter, GeneralRelativityChapter, Conclusion]"
    using construct_found [OF a, of w] construct_found [OF a, of "snd (construct e w)"]
    by simp
qed

theorem construct_stage_order_witness:
  "assets narrator_present narrator_path \<noteq> None
   \<and> fst (construct narrator_present initial_world) = None
   \<and> stage_sequence (trace (snd (construct narrator_present initial_world)))
        = [Title, NarratorIntro, SpecialRelativityChapter, GeneralRelativityChapter, Conclusion]
   \<and> stage_sequence (trace (snd (construct narrator_present
          (snd (construct narrator_present initial_world)))))
        = [Title, NarratorIntro, SpecialRelativityChapter, GeneralRelativityChapter, Conclusion,
           Title, NarratorIntro, SpecialRelativityChapter, GeneralRelativityChapter, Conclusion]"
proof -
  note second = construct_stage_order [of narrator_present initial_world,
      THEN conjunct2, rule_format, OF narrator_present_resolves]
  note first = construct_stage_order [of narrator_present initial_world, THEN conjunct1]
  have "trace initial_world = []"
    by (simp add: initial_world_def)
  then show ?thesis
    using first second narrator_present_resolves by simp
qed

section \<open>The frame configuration\<close>

text \<open>
  C8. Applying \<open>configure_global_settings\<close> a second time leaves background colour, frame
  size and pixel size as the first application set them (\<open>#1a1a1a\<close>, 16 by 9, 1920 by
  1080); the only trace of the second application is the record of the call.
\<close>

theorem configure_global_settings_idempotent:
  "rendering_configuration (configure_global_settings (configure_global_settings w))
     = rendering_configuration (configure_global_settings w)
   \<and> rendering_configuration (configure_global_settings w) = (''#1a1a1a'', 16, 9, 1920, 1080)
   \<and> configure_global_settings (configure_global_settings w)
     = (configure_global_settings w)
         \<lparr>trace := trace (configure_global_settings w) @ [Call ''configure_global_settings'']\<rparr>"
  by (simp add: configure_global_settings_def rendering_configuration_def call_def Let_def)

section \<open>The curved surface and the photon paths\<close>

lemma half_exp_tendsto: "filterlim (\<lambda>r::real. 0.5 * exp (- r)) (nhds 0) at_top"
proof -
  have "filterlim (\<lambda>r::real. exp (- r)) (nhds 0) at_top"
    by (rule filterlim_compose [OF exp_at_bot filterlim_uminus_at_bot_at_top])
  from tendsto_mult_right_zero [OF this, of "0.5"] show ?thesis
    by (simp add: mult.commute)
qed

text \<open>
  C7. The surface built by \<open>create_spacetime_curvature\<close> maps \<open>(u, v)\<close> to
  \<open>(u, v, 0.5 * exp (- (u\<^sup>2 + v\<^sup>2)))\<close>. Its height at \<open>(0, 0)\<close> is \<open>0.5\<close>; everywhere it
  is positive and at most \<open>0.5 / (1 + u\<^sup>2 + v\<^sup>2)\<close>, and it tends to \<open>0\<close> as \<open>u\<^sup>2 + v\<^sup>2\<close> tends
  to infinity.
\<close>

theorem surface_height:
  "surface_func (kind (snd (fst (create_spacetime_curvature w)))) u v
     = (u, v, 0.5 * exp (- (u\<^sup>2 + v\<^sup>2)))
   \<and> height (surface_func (kind (snd (fst (create_spacetime_curvature w)))) 0 0) = 0.5
   \<and> 0 < height (surface_func (kind (snd (fst (create_spacetime_curvature w)))) u v)
   \<and> height (surface_func (kind (snd (fst (create_spacetime_curvature w)))) u v)
         * (1 + (u\<^sup>2 + v\<^sup>2)) \<le> 0.5
   \<and> filterlim (\<lambda>p. height (surface_func (kind (snd (fst (create_spacetime_curvature w))))
                      (fst p) (snd p)))
        (nhds 0) (filtercomap (\<lambda>p. (fst p)\<^sup>2 + (snd p)\<^sup>2) at_top)"
proof -
  have f: "surface_func (kind (snd (fst (create_spacetime_curvature w))))
     = (\<lambda>u v. (u, v, 0.5 * exp (- (u\<^sup>2 + v\<^sup>2))))"
    by (simp add: create_spacetime_curvature_def Let_def split_def Surface_def Sphere_def new_def)
  have "filterlim (\<lambda>p::real \<times> real. 0.5 * exp (- ((fst p)\<^sup>2 + (snd p)\<^sup>2)))
        (nhds 0) (filtercomap (\<lambda>p. (fst p)\<^sup>2 + (snd p)\<^sup>2) at_top)"
    by (rule filterlim_compose [OF half_exp_tendsto filterlim_filtercomap])
  moreover have "exp (- r) * (1 + r) \<le> 1" for r :: real
  proof -
    have "exp (- r) * (1 + r) \<le> exp (- r) * exp r"
      by (rule mult_left_mono [OF exp_ge_add_one_self]) simp
    also have "\<dots> = 1"
      by (simp add: exp_add [symmetric])
    finally show ?thesis .
  qed
  from this [of "u\<^sup>2 + v\<^sup>2"]
  have "exp (- (u\<^sup>2 + v\<^sup>2)) * (1 + (u\<^sup>2 + v\<^sup>2)) \<le> 1" .
  ultimately show ?thesis
    by (simp add: f height_def del: minus_add_distrib)
qed

lemma photon_paths_kinds:
  "map kind (fst (photon_paths ns w))
    = replicate (length ns)
        (KParametricFunction (\<lambda>t. (1.5 * cos t, 1.5 * sin t, 0.5 * sin (2 * t))) (0, 2 * pi))"
  by (induction ns arbitrary: w) (simp_all add: ParametricFunction_def new_def Let_def split_def)

lemma photon_paths_idents:
  "map ident (fst (photon_paths ns w)) = [fresh w ..< fresh w + length ns]"
  by (induction ns arbitrary: w)
     (simp_all add: ParametricFunction_def new_def Let_def split_def upt_rec)

lemma fresh_photon_paths: "fresh (snd (photon_paths ns w)) = fresh w + length ns"
  by (induction ns arbitrary: w)
     (simp_all add: ParametricFunction_def new_def Let_def split_def)

lemma submobjects_add_Nil: "submobjects (add (Mobject i k e []) ms) = ms"
  by simp

text \<open>
  C9. \<open>create_photon_paths\<close> returns a group of exactly five paths, five distinct objects
  with one and the same curve: each maps \<open>t\<close> to \<open>(1.5 cos t, 1.5 sin t, 0.5 sin 2t)\<close> over
  the range from \<open>0\<close> to \<open>2 pi\<close>.
\<close>

theorem photon_paths_coincide:
  "length (submobjects (fst (create_photon_paths w))) = 5
   \<and> map kind (submobjects (fst (create_photon_paths w)))
       = replicate 5
          (KParametricFunction (\<lambda>t. (1.5 * cos t, 1.5 * sin t, 0.5 * sin (2 * t))) (0, 2 * pi))
   \<and> map (\<lambda>m. curve_func (kind m) t) (submobjects (fst (create_photon_paths w)))
       = replicate 5 (1.5 * cos t, 1.5 * sin t, 0.5 * sin (2 * t))
   \<and> map (\<lambda>m. t_range (kind m)) (submobjects (fst (create_photon_paths w)))
       = replicate 5 (0, 2 * pi)
   \<and> distinct (map ident (submobjects (fst (create_photon_paths w))))"
proof -
  define ps where "ps = fst (photon_paths [0 ..< 5] (call ''create_photon_paths'' w))"
  have sub: "submobjects (fst (create_photon_paths w)) = ps"
    by (simp add: create_photon_paths_def Let_def split_def VGroup_def new_def ps_def)
  have k: "map kind ps = replicate 5
          (KParametricFunction (\<lambda>t. (1.5 * cos t, 1.5 * sin t, 0.5 * sin (2 * t))) (0, 2 * pi))"
    unfolding ps_def by (simp add: photon_paths_kinds)
  have i: "map ident ps = [fresh w ..< fresh w + 5]"
    unfolding ps_def by (simp add: photon_paths_idents)
  have l: "length ps = 5"
    using arg_cong [OF k, of length] by simp
  have c: "map (\<lambda>m. curve_func (kind m) t) ps = map (\<lambda>k. curve_func k t) (map kind ps)"
    by simp
  have r: "map (\<lambda>m. t_range (kind m)) ps = map t_range (map kind ps)"
    by simp
  show ?thesis
    unfolding sub c r using l i by (simp add: k)
qed

section \<open>A run without the narrator's file\<close>

lemma trace_show_title:
  "trace (show_title w) = trace w @
     [Call ''show_title'',
      Play [Write (Mobject (fresh w) (KText ''Einstein's Relativity'' 72) Unknown []),
            FadeIn (Mobject (fresh w + 1) (KText ''A Modern Visualization'' 36) Unknown [])
              (Some UP)] None,
      Wait 2,
      Play [FadeOut (Mobject (fresh w) (KText ''Einstein's Relativity'' 72) Unknown []),
            FadeOut (Mobject (fresh w + 1) (KText ''A Modern Visualization'' 36) Unknown [])]
        None]"
  by (simp add: show_title_def Let_def ctor_defs next_to_def get_critical_point_def bounds_def)

lemma configure_global_settings_fields [simp]:
  "trace (configure_global_settings w) = trace w @ [Call ''configure_global_settings'']"
  "fresh (configure_global_settings w) = fresh w"
  "mobjects (configure_global_settings w) = mobjects w"
  by (simp_all add: configure_global_settings_def Let_def)

lemma construct_missing:
  assumes "assets e narrator_path = None"
  shows "fst (construct e w) = Some (AssetNotFound narrator_path)
   \<and> trace (snd (construct e w)) = trace w @
     [Call ''construct'', Call ''configure_global_settings'', Call ''show_title'',
      Play [Write (Mobject (fresh w) (KText ''Einstein's Relativity'' 72) Unknown []),
            FadeIn (Mobject (fresh w + 1) (KText ''A Modern Visualization'' 36) Unknown [])
              (Some UP)] None,
      Wait 2,
      Play [FadeOut (Mobject (fresh w) (KText ''Einstein's Relativity'' 72) Unknown []),
            FadeOut (Mobject (fresh w + 1) (KText ''A Modern Visualization'' 36) Unknown [])]
        None,
      Call ''create_narrator'']"
  by (simp add: construct_def Let_def create_narrator_missing [OF assms] trace_show_title)

lemma narrator_missing_unresolved: "assets narrator_missing narrator_path = None"
  by (simp add: narrator_missing_def)

text \<open>
  C6, as the code has it. When the narrator's file does not resolve, the run ends with
  \<open>AssetNotFound\<close>: by then the Title stage has been played in full, its fade-out
  batch included, and the error is raised on entering \<open>create_narrator\<close>, before the
  NarratorIntro stage; Title is the only stage entered. When the file resolves, the run
  returns normally after all five stages.
\<close>

theorem missing_asset_fails_after_title:
  "(assets e narrator_path = None \<longrightarrow>
      fst (construct e w) = Some (AssetNotFound narrator_path)
    \<and> trace (snd (construct e w)) = trace w @
       [Call ''construct'', Call ''configure_global_settings'', Call ''show_title'',
        Play [Write (Mobject (fresh w) (KText ''Einstein's Relativity'' 72) Unknown []),
              FadeIn (Mobject (fresh w + 1) (KText ''A Modern Visualization'' 36) Unknown [])
                (Some UP)] None,
        Wait 2,
        Play [FadeOut (Mobject (fresh w) (KText ''Einstein's Relativity'' 72) Unknown []),
              FadeOut (Mobject (fresh w + 1) (KText ''A Modern Visualization'' 36) Unknown [])]
          None,
        Call ''create_narrator'']
    \<and> stage_sequence (trace (snd (construct e w))) = stage_sequence (trace w) @ [Title])
   \<and> (assets e narrator_path \<noteq> None \<longrightarrow>
      fst (construct e w) = None
    \<and> stage_sequence (trace (snd (construct e w)))
        = stage_sequence (trace w)
          @ [Title, NarratorIntro, SpecialRelativityChapter, GeneralRelativityChapter, Conclusion])"
proof (intro conjI impI)
  assume a: "assets e narrator_path = None"
  show "fst (construct e w) = Some (AssetNotFound narrator_path)"
    using construct_missing [OF a] by blast
  show t: "trace (snd (construct e w)) = trace w @
       [Call ''construct'', Call ''configure_global_settings'', Call ''show_title'',
        Play [Write (Mobject (fresh w) (KText ''Einstein's Relativity'' 72) Unknown []),
              FadeIn (Mobject (fresh w + 1) (KText ''A Modern Visualization'' 36) Unknown [])
                (Some UP)] None,
        Wait 2,
        Play [FadeOut (Mobject (fresh w) (KText ''Einstein's Relativity'' 72) Unknown []),
              FadeOut (Mobject (fresh w + 1) (KText ''A Modern Visualization'' 36) Unknown [])]
          None,
        Call ''create_narrator'']"
    using construct_missing [OF a] by blast
  show "stage_sequence (trace (snd (construct e w))) = stage_sequence (trace w) @ [Title]"
    unfolding t by (simp add: stage_of_call_def)
next
  assume a: "assets e narrator_path \<noteq> None"
  show "fst (construct e w) = None"
    using construct_found [OF a] by blast
  show "stage_sequence (trace (snd (construct e w)))
        = stage_sequence (trace w)
          @ [Title, NarratorIntro, SpecialRelativityChapter, GeneralRelativityChapter, Conclusion]"
    using construct_found [OF a] by blast
qed

theorem missing_asset_fails_after_title_witness:
  "assets narrator_missing narrator_path = None
   \<and> fst (construct narrator_missing initial_world) = Some (AssetNotFound narrator_path)
   \<and> stage_sequence (trace (snd (construct narrator_missing initial_world))) = [Title]
   \<and> assets narrator_present narrator_path \<noteq> None
   \<and> fst (construct narrator_present initial_world) = None
   \<and> stage_sequence (trace (snd (construct narrator_present initial_world)))
        = [Title, NarratorIntro, SpecialRelativityChapter, GeneralRelativityChapter, Conclusion]"
proof -
  note m = missing_asset_fails_after_title [of narrator_missing initial_world,
      THEN conjunct1, rule_format, OF narrator_missing_unresolved]
  note p = missing_asset_fails_after_title [of narrator_present initial_world,
      THEN conjunct2, rule_format, OF narrator_present_resolves]
  have "trace initial_world = []"
    by (simp add: initial_world_def)
  then show ?thesis
    using m p narrator_missing_unresolved narrator_present_resolves
    by (simp add: stage_of_call_def)
qed

text \<open>
  C6 as stated fails: the run without the file has played the fade-out of the title
  and the subtitle before the error is raised.
\<close>

theorem title_fade_out_played_before_failure:
  "fst (construct narrator_missing initial_world) = Some (AssetNotFound ''assets/narrator.svg'')
   \<and> trace (snd (construct narrator_missing initial_world)) =
       [Call ''construct'', Call ''configure_global_settings'', Call ''show_title'',
        Play [Write (Mobject 0 (KText ''Einstein's Relativity'' 72) Unknown []),
              FadeIn (Mobject 1 (KText ''A Modern Visualization'' 36) Unknown []) (Some UP)]
          None,
        Wait 2,
        Play [FadeOut (Mobject 0 (KText ''Einstein's Relativity'' 72) Unknown []),
              FadeOut (Mobject 1 (KText ''A Modern Visualization'' 36) Unknown [])] None,
        Call ''create_narrator'']"
  using construct_missing [OF narrator_missing_unresolved, of initial_world]
  by (simp add: initial_world_def narrator_path_def os_path_join_def)

section \<open>Where the narration helper puts the caption\<close>

lemmas geom_defs = scale_def get_center_def get_critical_point_def bounds_def next_to_def
  move_to_def neg_def UP_def DOWN_def LEFT_def RIGHT_def ORIGIN_def extremum_def scale_point_def
  DEFAULT_MOBJECT_TO_MOBJECT_BUFFER_def DEFAULT_MOBJECT_TO_EDGE_BUFFER_def

lemma narration_bubble:
  "next_to (scale 0.7 (fst (ThoughtBubble w)))
     (Mobject i k (Box (ax, ay, az) (bx, by, bz)) []) UP DEFAULT_MOBJECT_TO_MOBJECT_BUFFER
   = bubble_with (fresh w)
       (Box ((ax + bx) / 2 - 0.392, by + 0.446, (az + bz) / 2)
            ((ax + bx) / 2 + 0.588, by + 1.426, (az + bz) / 2))
       (Box ((ax + bx) / 2 - 0.532, by + 0.306, (az + bz) / 2)
            ((ax + bx) / 2 - 0.322, by + 0.516, (az + bz) / 2))
       (Box ((ax + bx) / 2 - 0.56, by + 0.278, (az + bz) / 2)
            ((ax + bx) / 2 - 0.392, by + 0.446, (az + bz) / 2))
       (Box ((ax + bx) / 2 - 0.588, by + 0.25, (az + bz) / 2)
            ((ax + bx) / 2 - 0.462, by + 0.376, (az + bz) / 2))"
  by (simp add: ThoughtBubble_eq geom_defs bubble_with_def)

lemma narration_bubble_bounds:
  "bounds (bubble_with n
       (Box ((ax + bx) / 2 - 0.392, by + 0.446, (az + bz) / 2)
            ((ax + bx) / 2 + 0.588, by + 1.426, (az + bz) / 2))
       (Box ((ax + bx) / 2 - 0.532, by + 0.306, (az + bz) / 2)
            ((ax + bx) / 2 - 0.322, by + 0.516, (az + bz) / 2))
       (Box ((ax + bx) / 2 - 0.56, by + 0.278, (az + bz) / 2)
            ((ax + bx) / 2 - 0.392, by + 0.446, (az + bz) / 2))
       (Box ((ax + bx) / 2 - 0.588, by + 0.25, (az + bz) / 2)
            ((ax + bx) / 2 - 0.462, by + 0.376, (az + bz) / 2)))
   = Box ((ax + bx) / 2 - 0.588, by + 0.25, (az + bz) / 2)
         ((ax + bx) / 2 + 0.588, by + 1.426, (az + bz) / 2)"
  by (simp add: bounds_def bubble_with_def)

text \<open>
  The sibling path: \<open>introduce_narrator\<close> asks the bubble for its anchor and puts its
  caption there.
\<close>

lemma introduce_narrator_caption_at_anchor:
  "\<exists>bubble caption.
      trace (snd (introduce_narrator (Mobject i k (Box (ax, ay, az) (bx, by, bz)) []) w))
        = trace w @ [Call ''introduce_narrator'', Play [Create bubble, Write caption] None,
                     Wait 2, Play [FadeOut bubble, FadeOut caption] None]
    \<and> kind bubble = KThoughtBubble
    \<and> kind caption = KText ''Let's explore spacetime!'' 24
    \<and> get_bubble_center bubble = Inr (Some ((ax + bx) / 2 + 0.098, by + 0.936, (az + bz) / 2))
    \<and> own caption = Centred ((ax + bx) / 2 + 0.098, by + 0.936, (az + bz) / 2)"
proof -
  let ?narrator = "Mobject i k (Box (ax, ay, az) (bx, by, bz)) []"
  let ?w = "call ''introduce_narrator'' w"
  define bubble where "bubble = next_to (scale 0.7 (fst (ThoughtBubble ?w))) ?narrator UP
      DEFAULT_MOBJECT_TO_MOBJECT_BUFFER"
  define caption where "caption = move_to
      (Mobject (fresh w + 6) (KText ''Let's explore spacetime!'' 24) Unknown [])
      (Some ((ax + bx) / 2 + 0.098, by + 0.936, (az + bz) / 2))"
  have b: "bubble = bubble_with (fresh w)
       (Box ((ax + bx) / 2 - 0.392, by + 0.446, (az + bz) / 2)
            ((ax + bx) / 2 + 0.588, by + 1.426, (az + bz) / 2))
       (Box ((ax + bx) / 2 - 0.532, by + 0.306, (az + bz) / 2)
            ((ax + bx) / 2 - 0.322, by + 0.516, (az + bz) / 2))
       (Box ((ax + bx) / 2 - 0.56, by + 0.278, (az + bz) / 2)
            ((ax + bx) / 2 - 0.392, by + 0.446, (az + bz) / 2))
       (Box ((ax + bx) / 2 - 0.588, by + 0.25, (az + bz) / 2)
            ((ax + bx) / 2 - 0.462, by + 0.376, (az + bz) / 2))"
    unfolding bubble_def narration_bubble by simp
  have a: "get_bubble_center bubble
      = Inr (Some ((ax + bx) / 2 + 0.098, by + 0.936, (az + bz) / 2))"
    unfolding b by (simp add: get_bubble_center_bubble_with box_centre_def)
  have cap: "caption = Mobject (fresh w + 6) (KText ''Let's explore spacetime!'' 24)
      (Centred ((ax + bx) / 2 + 0.098, by + 0.936, (az + bz) / 2)) []"
    unfolding caption_def
    by (simp add: move_to_def get_center_def get_critical_point_def bounds_def)
  have tr: "trace (snd (introduce_narrator ?narrator w))
        = trace w @ [Call ''introduce_narrator'', Play [Create bubble, Write caption] None,
                     Wait 2, Play [FadeOut bubble, FadeOut caption] None]"
    using a unfolding bubble_def caption_def
    by (simp add: introduce_narrator_def Let_def split_def Text_def new_def ThoughtBubble_eq)
  have k: "kind bubble = KThoughtBubble"
    unfolding b by (simp add: bubble_with_def)
  show ?thesis
    by (intro exI [of _ bubble] exI [of _ caption]) (simp add: tr k a cap)
qed

text \<open>
  C5, evaluated at a narrator with any bounding box and any text. \<open>show_narration\<close>
  builds the bubble, scales it, puts it above the narrator (its lower edge \<open>0.25\<close> above
  the narrator's upper edge, centred on the narrator), plays bubble and caption in
  together, waits, and plays them out together. But it moves the caption to the centre
  of the bubble's whole bounding box, trailing circles included: that point lies \<open>0.098\<close>
  to the left of and \<open>0.098\<close> below the anchor, the centre of the main circle.
\<close>

theorem show_narration_caption_off_anchor:
  "\<exists>bubble caption.
      trace (show_narration (Mobject i k (Box (ax, ay, az) (bx, by, bz)) []) t w)
        = trace w @ [Call ''show_narration'', Play [Create bubble, Write caption] None,
                     Wait 3, Play [FadeOut bubble, FadeOut caption] None]
    \<and> kind bubble = KThoughtBubble
    \<and> kind caption = KText t 24
    \<and> bounds bubble = Box ((ax + bx) / 2 - 0.588, by + 0.25, (az + bz) / 2)
                           ((ax + bx) / 2 + 0.588, by + 1.426, (az + bz) / 2)
    \<and> get_center bubble = Some ((ax + bx) / 2, by + 0.838, (az + bz) / 2)
    \<and> own caption = Centred ((ax + bx) / 2, by + 0.838, (az + bz) / 2)
    \<and> get_bubble_center bubble = Inr (Some ((ax + bx) / 2 + 0.098, by + 0.936, (az + bz) / 2))
    \<and> get_bubble_center bubble \<noteq> Inr (get_center bubble)"
proof -
  let ?narrator = "Mobject i k (Box (ax, ay, az) (bx, by, bz)) []"
  let ?w = "call ''show_narration'' w"
  define bubble where "bubble = next_to (scale 0.7 (fst (ThoughtBubble ?w))) ?narrator UP
      DEFAULT_MOBJECT_TO_MOBJECT_BUFFER"
  define caption where "caption = move_to (Mobject (fresh w + 6) (KText t 24) Unknown [])
      (get_center bubble)"
  have b: "bubble = bubble_with (fresh w)
       (Box ((ax + bx) / 2 - 0.392, by + 0.446, (az + bz) / 2)
            ((ax + bx) / 2 + 0.588, by + 1.426, (az + bz) / 2))
       (Box ((ax + bx) / 2 - 0.532, by + 0.306, (az + bz) / 2)
            ((ax + bx) / 2 - 0.322, by + 0.516, (az + bz) / 2))
       (Box ((ax + bx) / 2 - 0.56, by + 0.278, (az + bz) / 2)
            ((ax + bx) / 2 - 0.392, by + 0.446, (az + bz) / 2))
       (Box ((ax + bx) / 2 - 0.588, by + 0.25, (az + bz) / 2)
            ((ax + bx) / 2 - 0.462, by + 0.376, (az + bz) / 2))"
    unfolding bubble_def narration_bubble by simp
  have bb: "bounds bubble = Box ((ax + bx) / 2 - 0.588, by + 0.25, (az + bz) / 2)
                           ((ax + bx) / 2 + 0.588, by + 1.426, (az + bz) / 2)"
    unfolding b by (rule narration_bubble_bounds)
  have c: "get_center bubble = Some ((ax + bx) / 2, by + 0.838, (az + bz) / 2)"
    by (simp add: get_center_def get_critical_point_def bb ORIGIN_def extremum_def)
  have a: "get_bubble_center bubble
      = Inr (Some ((ax + bx) / 2 + 0.098, by + 0.936, (az + bz) / 2))"
    unfolding b by (simp add: get_bubble_center_bubble_with box_centre_def)
  have cap: "caption = Mobject (fresh w + 6) (KText t 24)
      (Centred ((ax + bx) / 2, by + 0.838, (az + bz) / 2)) []"
    unfolding caption_def c by (simp add: move_to_def get_center_def get_critical_point_def bounds_def)
  have tr: "trace (show_narration ?narrator t w)
        = trace w @ [Call ''show_narration'', Play [Create bubble, Write caption] None,
                     Wait 3, Play [FadeOut bubble, FadeOut caption] None]"
    by (simp add: show_narration_def Let_def split_def Text_def new_def bubble_def caption_def
        ThoughtBubble_eq)
  have k: "kind bubble = KThoughtBubble"
    unfolding b by (simp add: bubble_with_def)
  show ?thesis
    by (intro exI [of _ bubble] exI [of _ caption]) (simp add: tr k bb c a cap)
qed

section \<open>What each stage leaves on the canvas\<close>

text \<open>
  Moving, scaling and turning an object changes neither its identity nor the identities
  in its family, which is all the scene looks at when it adds and removes objects.
\<close>

lemma ident_shift [simp]: "ident (shift v m) = ident m"
  by (cases m) simp

lemma ident_forget [simp]: "ident (forget m) = ident m"
  by (cases m) simp

lemma ident_scale_about [simp]: "ident (scale_about f c m) = ident m"
  by (cases m) simp

lemma ident_scale [simp]: "ident (scale f m) = ident m"
  by (simp add: scale_def split: option.splits)

lemma ident_next_to [simp]: "ident (next_to m t d b) = ident m"
  by (simp add: next_to_def split: option.splits)

lemma ident_to_edge [simp]: "ident (to_edge m d b w) = ident m"
  by (simp add: to_edge_def Let_def split: option.splits)

lemma ident_move_to [simp]: "ident (move_to m p) = ident m"
  by (cases m) (simp add: move_to_def split: option.splits extent.splits list.splits)

lemma play_mobjects_unfold:
  "play_mobjects anims ms =
     foldl (\<lambda>ms a. clean_up a (finish a ms))
       (begin_animations anims (add_mobjects_from_animations anims ms)) anims"
  by (simp add: play_mobjects_def)

lemmas play_defs = play_mobjects_unfold add_mobjects_from_animations_def begin_animations_def
  clean_up_def add_if_absent_def in_scene_def scene_add_def scene_remove_def update_mobject_def

lemma title_canvas:
  "mobjects w = [] \<Longrightarrow> mobjects (show_title w) = []"
  apply (simp add: show_title_def Let_def split_def ctor_defs)
  apply (simp add: play_defs)
  done

lemma fresh_show_title [simp]: "fresh (show_title w) = fresh w + 2"
  by (simp add: show_title_def Let_def split_def ctor_defs)

lemma snd_ThoughtBubble [simp]: "snd (ThoughtBubble w) = w\<lparr>fresh := fresh w + 6\<rparr>"
  by (simp add: ThoughtBubble_eq)

lemma family_ids_Mobject:
  "map ident (family (Mobject i k e subs)) = i # concat (map (\<lambda>x. map ident (family x)) subs)"
  by (simp add: map_concat comp_def)

lemma family_ids_shift [simp]: "map ident (family (shift v m)) = map ident (family m)"
  by (induction m) (simp add: map_concat comp_def cong: map_cong)

lemma family_ids_forget [simp]: "map ident (family (forget m)) = map ident (family m)"
  by (induction m) (simp add: map_concat comp_def cong: map_cong)

lemma family_ids_scale_about [simp]:
  "map ident (family (scale_about f c m)) = map ident (family m)"
  by (induction m) (simp add: map_concat comp_def cong: map_cong)

lemma family_ids_scale [simp]: "map ident (family (scale f m)) = map ident (family m)"
  by (simp add: scale_def split: option.splits)

lemma family_ids_next_to [simp]: "map ident (family (next_to m t d b)) = map ident (family m)"
  by (simp add: next_to_def split: option.splits)

lemma family_ids_to_edge [simp]: "map ident (family (to_edge m d b w)) = map ident (family m)"
  by (simp add: to_edge_def Let_def split: option.splits)

lemma family_ids_rotate [simp]: "map ident (family (rotate a m)) = map ident (family m)"
  by (simp add: rotate_def)

lemma ident_rotate [simp]: "ident (rotate a m) = ident m"
  by (simp add: rotate_def)

lemma family_ids_move_to [simp]: "map ident (family (move_to m p)) = map ident (family m)"
  by (simp add: move_to_def del: forget.simps shift.simps
      split: option.splits mobject.splits extent.splits list.splits)

lemma in_scene_ids:
  "in_scene m ms = (ident m \<in> set (concat (map (\<lambda>x. map ident (family x)) ms)))"
  unfolding in_scene_def by (induction ms) auto

lemmas canvas_defs = play_mobjects_unfold add_mobjects_from_animations_def begin_animations_def
  clean_up_def add_if_absent_def in_scene_ids scene_add_def scene_remove_def update_mobject_def
  family_ids_Mobject

lemma intro_canvas:
  assumes "mobjects w = [Mobject i k e []]" "i < fresh w"
  shows "mobjects (snd (introduce_narrator (Mobject i k e []) w)) = [Mobject i k e []]"
proof -
  obtain c where c: "get_bubble_center
      (next_to (scale 0.7 (fst (ThoughtBubble (call ''introduce_narrator'' w)))) (Mobject i k e []) UP
         DEFAULT_MOBJECT_TO_MOBJECT_BUFFER) = Inr c"
    using introduce_narrator_bubble by blast
  then show ?thesis
    using assms
    apply (simp add: introduce_narrator_def Let_def split_def Text_def new_def)
    apply (simp add: ThoughtBubble_eq canvas_defs)
    done
qed

lemma fresh_introduce_narrator [simp]: "fresh (snd (introduce_narrator n w)) = fresh w + 7"
proof -
  obtain c where "get_bubble_center
      (next_to (scale 0.7 (fst (ThoughtBubble (call ''introduce_narrator'' w)))) n UP
         DEFAULT_MOBJECT_TO_MOBJECT_BUFFER) = Inr c"
    using introduce_narrator_bubble by blast
  then show ?thesis
    by (simp add: introduce_narrator_def Let_def split_def Text_def new_def)
qed

lemma sr_canvas:
  assumes "mobjects w = [Mobject i k e []]" "i < fresh w"
  shows "mobjects (special_relativity_chapter (Mobject i k e []) w) = [Mobject i k e []]"
  using assms
  apply (simp add: special_relativity_chapter_def show_time_dilation_def show_narration_def
      create_spacetime_diagram_def create_reference_frames_def Let_def split_def ctor_defs
      x_axis_def y_axis_def)
  apply (simp add: ThoughtBubble_eq canvas_defs)
  done

lemma fresh_wave_circles [simp]: "fresh (snd (wave_circles ns w)) = fresh w + length ns"
  by (induction ns arbitrary: w) (simp_all add: Circle_def new_def Let_def split_def)

lemma mobjects_wave_circles [simp]: "mobjects (snd (wave_circles ns w)) = mobjects w"
  by (induction ns arbitrary: w) (simp_all add: Circle_def new_def Let_def split_def)

lemma mobjects_photon_paths [simp]: "mobjects (snd (photon_paths ns w)) = mobjects w"
  by (induction ns arbitrary: w) (simp_all add: ParametricFunction_def new_def Let_def split_def)

lemma mobjects_play_each:
  "mobjects (play_each ps w) = foldl (\<lambda>ms p. play_mobjects [Create p] ms) (mobjects w) ps"
  by (induction ps arbitrary: w) simp_all

lemma gr_canvas:
  assumes "mobjects w = [Mobject i k e []]" "i < fresh w"
  shows "mobjects (general_relativity_chapter (Mobject i k e []) w) =
    [Mobject i k e [],
     Mobject (fresh w + 1)
       (KSurface (\<lambda>u v. (u, v, 0.5 * exp (- (u\<^sup>2 + v\<^sup>2)))) (-2, 2) (-2, 2)) Unknown [],
     Mobject (fresh w + 2) (KSphere 0.5) Unknown [],
     Mobject (fresh w + 4) (KCircle 0.5) (Box (-0.5, -0.5, 0) (0.5, 0.5, 0)) [],
     Mobject (fresh w + 5) (KCircle 1) (Box (-1, -1, 0) (1, 1, 0)) [],
     Mobject (fresh w + 6) (KCircle 1.5) (Box (-1.5, -1.5, 0) (1.5, 1.5, 0)) [],
     Mobject (fresh w + 7) (KCircle 2) (Box (-2, -2, 0) (2, 2, 0)) [],
     Mobject (fresh w + 8) (KCircle 2.5) (Box (-2.5, -2.5, 0) (2.5, 2.5, 0)) [],
     Mobject (fresh w + 11) (KAnnulus 1.5 3) Unknown [],
     Mobject (fresh w + 12)
       (KParametricFunction (\<lambda>t. (1.5 * cos t, 1.5 * sin t, 0.5 * sin (2 * t))) (0, 2 * pi))
       Unknown [],
     Mobject (fresh w + 13)
       (KParametricFunction (\<lambda>t. (1.5 * cos t, 1.5 * sin t, 0.5 * sin (2 * t))) (0, 2 * pi))
       Unknown [],
     Mobject (fresh w + 14)
       (KParametricFunction (\<lambda>t. (1.5 * cos t, 1.5 * sin t, 0.5 * sin (2 * t))) (0, 2 * pi))
       Unknown [],
     Mobject (fresh w + 15)
       (KParametricFunction (\<lambda>t. (1.5 * cos t, 1.5 * sin t, 0.5 * sin (2 * t))) (0, 2 * pi))
       Unknown [],
     Mobject (fresh w + 16)
       (KParametricFunction (\<lambda>t. (1.5 * cos t, 1.5 * sin t, 0.5 * sin (2 * t))) (0, 2 * pi))
       Unknown []]"
  using assms
  apply (simp add: general_relativity_chapter_def show_gravitational_waves_def show_black_hole_def
      create_spacetime_curvature_def create_photon_paths_def show_narration_def
      Let_def split_def ctor_defs upt5 split_mobject_def mobjects_play_each fresh_photon_paths)
  apply (simp add: ThoughtBubble_eq canvas_defs)
  apply (simp add: scale_def get_center_def get_critical_point_def bounds_def rotate_def)
  done

lemma fresh_special_relativity_chapter [simp]:
  "fresh (special_relativity_chapter n w) = fresh w + 22"
  by (simp add: special_relativity_chapter_def show_time_dilation_def show_narration_def
      create_spacetime_diagram_def create_reference_frames_def Let_def split_def ctor_defs)

lemma fresh_play_each [simp]: "fresh (play_each ps w) = fresh w"
  by (induction ps arbitrary: w) simp_all

lemma fresh_general_relativity_chapter [simp]:
  "fresh (general_relativity_chapter n w) = fresh w + 25"
  by (simp add: general_relativity_chapter_def show_gravitational_waves_def show_black_hole_def
      create_spacetime_curvature_def create_photon_paths_def show_narration_def
      Let_def split_def ctor_defs upt5 fresh_photon_paths)

lemma frame_width_show_title [simp]: "frame_width (show_title w) = frame_width w"
  by (simp add: show_title_def Let_def split_def ctor_defs)

lemma create_narrator_present:
  "frame_width w = 16 \<Longrightarrow>
   create_narrator narrator_present w
     = (Inr (Mobject (fresh w) (KNarrator ''assets/narrator.svg'')
               (Box (-7.5, -2.5, 0) (-4.5, 0.5, 0)) []),
        (call ''create_narrator'' w)\<lparr>fresh := fresh w + 1\<rparr>)"
  by (simp add: create_narrator_def Narrator_def narrator_present_def os_path_join_def Let_def
      new_def to_edge_def geom_defs call_def)

lemma gr_canvas_leftover:
  assumes "mobjects w = [Mobject i k e []]" "i < fresh w"
  shows "mobjects (general_relativity_chapter (Mobject i k e []) w)
           = Mobject i k e [] # leftover (fresh w)"
  using gr_canvas [OF assms] by (simp add: leftover_def)

lemma conclusion_canvas:
  assumes "mobjects w = Mobject i k e [] # leftover n" "i < fresh w" "n + 16 < fresh w"
  shows "mobjects (show_conclusion w) = Mobject i k e [] # leftover n"
  using assms
  apply (simp add: show_conclusion_def Let_def split_def ctor_defs)
  apply (simp add: canvas_defs leftover_def)
  done

text \<open>
  C2, evaluated on the run with the narrator's file present. The title, introduction
  and special-relativity stages return with the canvas as they found it (lemmas
  \<open>title_canvas\<close>, \<open>intro_canvas\<close>, \<open>sr_canvas\<close>). \<open>general_relativity_chapter\<close> fades out
  its chapter title and the equation only: when \<open>show_conclusion\<close> is entered the canvas
  holds, besides the narrator, thirteen objects of that stage (the warped surface, the
  mass, the five wave circles, the accretion disk and the five photon paths), and they
  are still there when the run ends.
\<close>

theorem general_relativity_objects_stay:
  "\<exists>w. snd (construct narrator_present initial_world) = show_conclusion w
      \<and> mobjects (show_conclusion w) = mobjects w
      \<and> mobjects w =
       [Mobject 2 (KNarrator ''assets/narrator.svg'') (Box (-7.5, -2.5, 0) (-4.5, 0.5, 0)) [],
        Mobject 33
          (KSurface (\<lambda>u v. (u, v, 0.5 * exp (- (u\<^sup>2 + v\<^sup>2)))) (-2, 2) (-2, 2)) Unknown [],
        Mobject 34 (KSphere 0.5) Unknown [],
        Mobject 36 (KCircle 0.5) (Box (-0.5, -0.5, 0) (0.5, 0.5, 0)) [],
        Mobject 37 (KCircle 1) (Box (-1, -1, 0) (1, 1, 0)) [],
        Mobject 38 (KCircle 1.5) (Box (-1.5, -1.5, 0) (1.5, 1.5, 0)) [],
        Mobject 39 (KCircle 2) (Box (-2, -2, 0) (2, 2, 0)) [],
        Mobject 40 (KCircle 2.5) (Box (-2.5, -2.5, 0) (2.5, 2.5, 0)) [],
        Mobject 43 (KAnnulus 1.5 3) Unknown [],
        Mobject 44
          (KParametricFunction (\<lambda>t. (1.5 * cos t, 1.5 * sin t, 0.5 * sin (2 * t))) (0, 2 * pi))
          Unknown [],
        Mobject 45
          (KParametricFunction (\<lambda>t. (1.5 * cos t, 1.5 * sin t, 0.5 * sin (2 * t))) (0, 2 * pi))
          Unknown [],
        Mobject 46
          (KParametricFunction (\<lambda>t. (1.5 * cos t, 1.5 * sin t, 0.5 * sin (2 * t))) (0, 2 * pi))
          Unknown [],
        Mobject 47
          (KParametricFunction (\<lambda>t. (1.5 * cos t, 1.5 * sin t, 0.5 * sin (2 * t))) (0, 2 * pi))
          Unknown [],
        Mobject 48
          (KParametricFunction (\<lambda>t. (1.5 * cos t, 1.5 * sin t, 0.5 * sin (2 * t))) (0, 2 * pi))
          Unknown []]"
proof -
  define narr where "narr = Mobject 2 (KNarrator ''assets/narrator.svg'')
                        (Box (-7.5, -2.5, 0) (-4.5, 0.5, 0)) []"
  define w1 where "w1 = show_title ((configure_global_settings
      (set_camera_orientation (70 * DEGREES) (- 30 * DEGREES) (call ''construct'' initial_world)))
        \<lparr>background_color := ''#1a1a1a''\<rparr>)"
  define w2 where "w2 = play [FadeIn narr None] None ((call ''create_narrator'' w1)\<lparr>fresh := 3\<rparr>)"
  define w3 where "w3 = snd (introduce_narrator narr w2)"
  define w4 where "w4 = special_relativity_chapter narr w3"
  define w5 where "w5 = general_relativity_chapter narr w4"
  have f1: "fresh w1 = 2" and m1: "mobjects w1 = []" and fw1: "frame_width w1 = 16"
    by (simp_all add: w1_def initial_world_def title_canvas configure_global_settings_def Let_def)
  have n: "create_narrator narrator_present w1
      = (Inr narr, (call ''create_narrator'' w1)\<lparr>fresh := 3\<rparr>)"
    using create_narrator_present [OF fw1] by (simp add: f1 narr_def)
  have m2: "mobjects w2 = [narr]" and f2: "fresh w2 = 3"
    by (simp_all add: w2_def m1 canvas_defs narr_def)
  have m3: "mobjects w3 = [narr]" and f3: "fresh w3 = 10"
    using intro_canvas [of w2 2] m2 f2 by (simp_all add: w3_def narr_def)
  have m4: "mobjects w4 = [narr]" and f4: "fresh w4 = 32"
    using sr_canvas [of w3 2] m3 f3 by (simp_all add: w4_def narr_def)
  have m5: "mobjects w5 = narr # leftover 32" and f5: "fresh w5 = 57"
    using gr_canvas_leftover [of w4 2] m4 f4 by (simp_all add: w5_def narr_def)
  have m6: "mobjects (show_conclusion w5) = narr # leftover 32"
    using conclusion_canvas [of w5 2 _ _ 32] m5 f5 by (simp add: narr_def)
  have c: "construct narrator_present initial_world =
     (case create_narrator narrator_present w1 of
           (Inl err, w) \<Rightarrow> (Some err, w)
         | (Inr narrator, w) \<Rightarrow>
             (let w = play [FadeIn narrator None] None w
              in case introduce_narrator narrator w of
                   (Some err, w) \<Rightarrow> (Some err, w)
                 | (None, w) \<Rightarrow>
                     (let w = special_relativity_chapter narrator w;
                          w = general_relativity_chapter narrator w;
                          w = show_conclusion w
                      in (None, w))))"
    by (simp add: construct_def w1_def Let_def)
  have "snd (construct narrator_present initial_world) = show_conclusion w5"
    unfolding c n
    by (simp add: Let_def split_def w2_def [symmetric] w3_def [symmetric] w4_def [symmetric]
        w5_def [symmetric] split: option.splits)
  then show ?thesis
    using m5 m6 unfolding narr_def
    by (intro exI [of _ w5]) (simp add: leftover_def)
qed

end
